theory Spec2Isabelle
  imports Complex_Main "HOL-Library.AList" "HOL-Library.Log_Nat" "HOL-Library.Sublist"
begin

section \<open>JavaScript values\<close>

text \<open>
  The provider in \<^verbatim>\<open>src/providers/databricks.ts\<close> handles the decoded response body as
  \<^verbatim>\<open>any\<close>, so the embedding works on untyped JavaScript values as \<^verbatim>\<open>JSON.parse\<close> yields
  them. An object is an association list (first binding of a key wins). A number carries the
  exact rational value of a finite IEEE-754 double.
\<close>

datatype jsval =
    JUndefined
  | JNull
  | JBool bool
  | JNum rat
  | JStr string
  | JArr "jsval list"
  | JObj "(string \<times> jsval) list"

text \<open>An exception is represented by the text that \<^verbatim>\<open>String(err)\<close> produces for it.\<close>

type_synonym js_error = string

fun js_truthy :: "jsval \<Rightarrow> bool" where
  "js_truthy JUndefined = False"
| "js_truthy JNull = False"
| "js_truthy (JBool b) = b"
| "js_truthy (JNum n) = (n \<noteq> 0)"
| "js_truthy (JStr s) = (s \<noteq> [])"
| "js_truthy (JArr xs) = True"
| "js_truthy (JObj kvs) = True"

text \<open>\<^verbatim>\<open>a || b\<close> on values.\<close>

definition js_or :: "jsval \<Rightarrow> jsval \<Rightarrow> jsval" where
  "js_or a b = (if js_truthy a then a else b)"

fun nullish :: "jsval \<Rightarrow> bool" where
  "nullish JUndefined = True"
| "nullish JNull = True"
| "nullish v = False"

text \<open>
  Reading a property of a value that is neither \<^verbatim>\<open>undefined\<close> nor \<^verbatim>\<open>null\<close>. None of the
  property names this module reads (\<^verbatim>\<open>error\<close>, \<^verbatim>\<open>choices\<close>, \<^verbatim>\<open>message\<close>, \<^verbatim>\<open>content\<close>, ...)
  is defined on the prototypes of booleans, numbers, strings or arrays, so such a read yields
  \<^verbatim>\<open>undefined\<close> there.
\<close>

fun js_prop :: "jsval \<Rightarrow> string \<Rightarrow> jsval" where
  "js_prop (JObj kvs) k = (case map_of kvs k of Some v \<Rightarrow> v | None \<Rightarrow> JUndefined)"
| "js_prop v k = JUndefined"

definition type_error_read :: "jsval \<Rightarrow> string \<Rightarrow> js_error" where
  "type_error_read v k =
     ''TypeError: Cannot read properties of ''
       @ (if v = JNull then ''null'' else ''undefined'')
       @ '' (reading '' @ [CHR 0x27] @ k @ [CHR 0x27] @ '')''"

text \<open>\<^verbatim>\<open>v.k\<close>: a \<^verbatim>\<open>TypeError\<close> on \<^verbatim>\<open>undefined\<close> and \<^verbatim>\<open>null\<close>.\<close>

definition js_get :: "jsval \<Rightarrow> string \<Rightarrow> js_error + jsval" where
  "js_get v k = (if nullish v then Inl (type_error_read v k) else Inr (js_prop v k))"

text \<open>\<^verbatim>\<open>v?.k\<close>: never throws.\<close>

definition js_get_opt :: "jsval \<Rightarrow> string \<Rightarrow> jsval" where
  "js_get_opt v k = (if nullish v then JUndefined else js_prop v k)"

text \<open>\<^verbatim>\<open>v[0]\<close>.\<close>

fun js_index0 :: "jsval \<Rightarrow> js_error + jsval" where
  "js_index0 JUndefined = Inl (type_error_read JUndefined ''0'')"
| "js_index0 JNull = Inl (type_error_read JNull ''0'')"
| "js_index0 (JArr xs) = Inr (case xs of [] \<Rightarrow> JUndefined | x # _ \<Rightarrow> x)"
| "js_index0 (JStr s) = Inr (case s of [] \<Rightarrow> JUndefined | ch # _ \<Rightarrow> JStr [ch])"
| "js_index0 (JObj kvs) = Inr (js_prop (JObj kvs) ''0'')"
| "js_index0 v = Inr JUndefined"

text \<open>Sequencing of computations that may throw.\<close>

definition and_then :: "(js_error + 'a) \<Rightarrow> ('a \<Rightarrow> js_error + 'b) \<Rightarrow> js_error + 'b" where
  "and_then m f = (case m of Inl e \<Rightarrow> Inl e | Inr x \<Rightarrow> f x)"

fun map_throwing :: "('a \<Rightarrow> js_error + 'b) \<Rightarrow> 'a list \<Rightarrow> js_error + 'b list" where
  "map_throwing f [] = Inr []"
| "map_throwing f (x # xs) =
     (case f x of
        Inl e \<Rightarrow> Inl e
      | Inr y \<Rightarrow> (case map_throwing f xs of Inl e \<Rightarrow> Inl e | Inr ys \<Rightarrow> Inr (y # ys)))"

text \<open>\<^verbatim>\<open>a || b\<close> on optional strings (\<^verbatim>\<open>undefined\<close> and \<^verbatim>\<open>''\<close> are falsy).\<close>

fun str_truthy :: "string option \<Rightarrow> bool" where
  "str_truthy None = False"
| "str_truthy (Some s) = (s \<noteq> [])"

definition str_or :: "string option \<Rightarrow> string option \<Rightarrow> string option" where
  "str_or a b = (if str_truthy a then a else b)"

section \<open>Double-precision arithmetic\<close>

text \<open>
  JavaScript numbers are IEEE-754 doubles. A finite double is represented by its exact
  rational value; \<open>fl\<close> rounds a rational to the nearest double, ties to even, with gradual
  underflow. Results beyond the finite range (\<^verbatim>\<open>Infinity\<close>) are not modelled.
\<close>

definition round_half_even :: "rat \<Rightarrow> int" where
  "round_half_even x =
     (let f = \<lfloor>x\<rfloor>; d = x - of_int f
      in if d < 1 / 2 then f else if 1 / 2 < d then f + 1 else if even f then f else f + 1)"

definition pow2 :: "int \<Rightarrow> rat" where
  "pow2 k = (if 0 \<le> k then 2 ^ nat k else 1 / 2 ^ nat (- k))"

text \<open>\<open>\<lfloor>log\<^sub>2 \<bar>x\<bar>\<rfloor>\<close> for \<open>x \<noteq> 0\<close>, from the bit lengths of numerator and denominator.\<close>

definition exponent_of :: "rat \<Rightarrow> int" where
  "exponent_of x =
     (let (p, q) = quotient_of \<bar>x\<bar>;
          d = bitlen p - bitlen q
      in if pow2 d \<le> \<bar>x\<bar> then d else d - 1)"

definition fl :: "rat \<Rightarrow> rat" where
  "fl x =
     (if x = 0 then 0
      else let q = pow2 (max (exponent_of x) (- 1022) - 52)
           in of_int (round_half_even (x / q)) * q)"

definition dmul :: "rat \<Rightarrow> rat \<Rightarrow> rat" where
  "dmul a b = fl (a * b)"

definition ddiv :: "rat \<Rightarrow> rat \<Rightarrow> rat" where
  "ddiv a b = fl (a / b)"

definition dadd :: "rat \<Rightarrow> rat \<Rightarrow> rat" where
  "dadd a b = fl (a + b)"

section \<open>Configuration and provider instances\<close>

text \<open>The static model catalog \<^verbatim>\<open>DATABRICKS_CHAT_MODELS\<close>; a decimal literal denotes
  the double nearest to it.\<close>

record ModelCost =
  input_cost :: rat
  output_cost :: rat

record ModelEntry =
  id_m :: string
  cost_m :: "ModelCost option"

definition DATABRICKS_CHAT_MODELS :: "ModelEntry list" where
  "DATABRICKS_CHAT_MODELS =
     map (\<lambda>model. \<lparr>id_m = model,
            cost_m = Some \<lparr>input_cost = ddiv (fl (8 / 10000)) 1000,
                           output_cost = ddiv (fl (24 / 10000)) 1000\<rparr>\<rparr>)
         [''databricks-dbrx-instruct'']
     @ map (\<lambda>model. \<lparr>id_m = model,
            cost_m = Some \<lparr>input_cost = ddiv (fl (5 / 10000)) 1000,
                           output_cost = ddiv (fl (1 / 1000)) 1000\<rparr>\<rparr>)
         [''databricks-mixtral-8x7b-instruct'']
     @ map (\<lambda>model. \<lparr>id_m = model,
            cost_m = Some \<lparr>input_cost = ddiv (fl (9 / 10000)) 1000,
                           output_cost = ddiv (fl (27 / 10000)) 1000\<rparr>\<rparr>)
         [''databricks-meta-llama-3-70b-instruct'']"

text \<open>
  A function-tool callback \<^verbatim>\<open>(arg: string) => Promise<string>\<close>: it receives whatever value
  the call site passes and either rejects (\<open>Inl\<close>, the text of the exception) or resolves to a
  string.
\<close>

type_synonym callback = "jsval \<Rightarrow> js_error + string"

text \<open>\<^verbatim>\<open>DatabricksSharedOptions & DatabricksCompletionOptions\<close>; every field is optional.\<close>

record DatabricksCompletionOptions =
  apiKey :: "string option"
  apiKeyEnvar :: "string option"
  apiHost :: "string option"
  apiBaseUrl :: "string option"
  cost :: "rat option"
  headers :: "(string \<times> string) list option"
  temperature :: "rat option"
  max_tokens :: "rat option"
  top_p :: "rat option"
  frequency_penalty :: "rat option"
  presence_penalty :: "rat option"
  best_of :: "rat option"
  functions_c :: "jsval option"
  function_call :: "jsval option"
  tools :: "jsval option"
  tool_choice :: "jsval option"
  response_format :: "jsval option"
  stop :: "jsval option"
  passthrough :: "(string \<times> jsval) list option"
  functionToolCallbacks :: "(string \<rightharpoonup> callback) option"

definition empty_config :: DatabricksCompletionOptions where
  "empty_config =
     \<lparr>apiKey = None, apiKeyEnvar = None, apiHost = None, apiBaseUrl = None, cost = None,
      headers = None, temperature = None, max_tokens = None, top_p = None,
      frequency_penalty = None, presence_penalty = None, best_of = None, functions_c = None,
      function_call = None, tools = None, tool_choice = None, response_format = None,
      stop = None, passthrough = None, functionToolCallbacks = None\<rparr>"

text \<open>An environment (\<^verbatim>\<open>process.env\<close> or an \<^verbatim>\<open>EnvOverrides\<close> map).\<close>

type_synonym environment = "string \<rightharpoonup> string"

record ProviderOptions =
  config_o :: "DatabricksCompletionOptions option"
  id_o :: "string option"
  env_o :: "environment option"

text \<open>
  A provider instance. \<open>id_fn\<close> holds the result of the constructor's
  \<^verbatim>\<open>this.id = id ? () => id : this.id\<close>: \<open>Some i\<close> when the instance's \<^verbatim>\<open>id\<close> was replaced
  by the constant function, \<open>None\<close> when the class method is kept.
\<close>

record Provider =
  modelName :: string
  config :: DatabricksCompletionOptions
  env :: "environment option"
  id_fn :: "string option"

definition new_provider :: "string \<Rightarrow> ProviderOptions \<Rightarrow> Provider" where
  "new_provider name options =
     \<lparr>modelName = name,
      config = (case config_o options of Some c \<Rightarrow> c | None \<Rightarrow> empty_config),
      env = env_o options,
      id_fn = (if str_truthy (id_o options) then id_o options else None)\<rparr>"

definition no_options :: ProviderOptions where
  "no_options = \<lparr>config_o = None, id_o = None, env_o = None\<rparr>"

text \<open>The class method \<^verbatim>\<open>id()\<close> (lines 120-124).\<close>

definition id_method :: "Provider \<Rightarrow> string" where
  "id_method p =
     (if str_truthy (str_or (apiHost (config p)) (apiBaseUrl (config p)))
      then modelName p
      else ''databricks:'' @ modelName p)"

text \<open>Calling \<^verbatim>\<open>provider.id()\<close> on an instance.\<close>

definition provider_id :: "Provider \<Rightarrow> string" where
  "provider_id p = (case id_fn p of Some i \<Rightarrow> i | None \<Rightarrow> id_method p)"

definition getApiUrlDefault :: string where
  "getApiUrlDefault = ''https://cloud.databricks.com/v1''"

text \<open>\<^verbatim>\<open>this.env?.NAME\<close>.\<close>

definition env_get :: "environment option \<Rightarrow> string \<Rightarrow> string option" where
  "env_get e k = (case e of None \<Rightarrow> None | Some m \<Rightarrow> m k)"

definition getApiUrl :: "environment \<Rightarrow> Provider \<Rightarrow> string" where
  "getApiUrl penv p =
     (let apiHost =
            str_or (str_or (apiHost (config p)) (env_get (env p) ''DATABRICKS_API_HOST''))
                   (penv ''DATABRICKS_API_HOST'')
      in if str_truthy apiHost then ''https://'' @ the apiHost
         else the (str_or (str_or (str_or (str_or (str_or
                (apiBaseUrl (config p))
                (env_get (env p) ''DATABRICKS_API_BASE_URL''))
                (env_get (env p) ''DATABRICKS_BASE_URL''))
                (penv ''DATABRICKS_API_BASE_URL''))
                (penv ''DATABRICKS_BASE_URL''))
                (Some getApiUrlDefault)))"

definition getApiKey :: "environment \<Rightarrow> Provider \<Rightarrow> string option" where
  "getApiKey penv p =
     str_or (str_or (str_or
        (apiKey (config p))
        (if str_truthy (apiKeyEnvar (config p))
         then str_or (penv (the (apiKeyEnvar (config p))))
                     (env_get (env p) (the (apiKeyEnvar (config p))))
         else None))
        (env_get (env p) ''DATABRICKS_API_KEY''))
        (penv ''DATABRICKS_API_KEY'')"

section \<open>Collaborators\<close>

text \<open>The request handed to the cached-fetch collaborator.\<close>

record FetchOptions =
  http_method :: string
  headers_f :: "(string \<times> string) list"
  body :: string

text \<open>
  Imports of the module whose code is not part of this file, and the built-in conversions
  of the language where their result depends on number formatting or parsing:
  \<^item> \<open>fetchWithCache url options timeout\<close> throws (\<open>Inl\<close>) or returns \<open>(data, cached)\<close>;
  \<^item> \<open>ToString\<close> and \<open>ToNumber\<close> are consulted for values other than the ones decided in
    \<open>js_to_string\<close> and \<open>js_to_number\<close> below (\<open>ToNumber = None\<close> is \<^verbatim>\<open>NaN\<close>);
  \<^item> \<open>parseInt\<close> and \<open>parseFloat\<close> feed the request body only, where \<^verbatim>\<open>JSON.stringify\<close>
    prints \<^verbatim>\<open>NaN\<close> as \<^verbatim>\<open>null\<close>.
\<close>

record Collaborators =
  fetchWithCache :: "string \<Rightarrow> FetchOptions \<Rightarrow> nat \<Rightarrow> js_error + (jsval \<times> bool)"
  REQUEST_TIMEOUT_MS :: nat
  parseChatPrompt :: "string \<Rightarrow> jsval \<Rightarrow> jsval"
  renderVarsInObject :: "jsval \<Rightarrow> jsval option \<Rightarrow> jsval"
  safeJsonStringify :: "jsval \<Rightarrow> bool \<Rightarrow> string"
  JSON_stringify :: "jsval \<Rightarrow> string"
  ToString :: "jsval \<Rightarrow> string"
  ToNumber :: "jsval \<Rightarrow> rat option"
  parseInt :: "string \<Rightarrow> jsval"
  parseFloat :: "string \<Rightarrow> jsval"

text \<open>String coercion, as in a template literal or a property key.\<close>

fun js_to_string :: "Collaborators \<Rightarrow> jsval \<Rightarrow> string" where
  "js_to_string c (JStr s) = s"
| "js_to_string c JUndefined = ''undefined''"
| "js_to_string c JNull = ''null''"
| "js_to_string c (JBool b) = (if b then ''true'' else ''false'')"
| "js_to_string c v = ToString c v"

text \<open>Numeric coercion of an operand of \<^verbatim>\<open>*\<close>; \<open>None\<close> is \<^verbatim>\<open>NaN\<close>.\<close>

fun js_to_number :: "Collaborators \<Rightarrow> jsval \<Rightarrow> rat option" where
  "js_to_number c (JNum n) = Some n"
| "js_to_number c JUndefined = None"
| "js_to_number c JNull = Some 0"
| "js_to_number c (JBool b) = Some (if b then 1 else 0)"
| "js_to_number c v = ToNumber c v"

section \<open>Results\<close>

text \<open>In the result records \<open>None\<close> is an absent key and \<open>Some v\<close> a key holding \<open>v\<close>.\<close>

record TokenUsage =
  total :: "jsval option"
  prompt :: "jsval option"
  completion :: "jsval option"
  cached :: "jsval option"

record ProviderResponse =
  "output" :: "jsval option"
  error :: "string option"
  tokenUsage :: "TokenUsage option"
  cached_r :: "bool option"
  logProbs :: "jsval option"
  cost_r :: "jsval option"

definition error_result :: "string \<Rightarrow> ProviderResponse" where
  "error_result msg =
     \<lparr>output = None, error = Some msg, tokenUsage = None, cached_r = None, logProbs = None,
      cost_r = None\<rparr>"

text \<open>How an invocation ends: the promise rejects or resolves.\<close>

datatype 'a outcome = Thrown js_error | Returned 'a

text \<open>The calls an invocation makes to the outside, in order.\<close>

datatype event =
    FetchCall string FetchOptions nat
  | CallbackCall string jsval

fun is_callback_call :: "event \<Rightarrow> bool" where
  "is_callback_call (CallbackCall name arg) = True"
| "is_callback_call (FetchCall url options timeout) = False"

section \<open>Token usage, error formatting and cost\<close>

text \<open>\<^verbatim>\<open>getTokenUsage\<close> (lines 88-101).\<close>

definition getTokenUsage :: "jsval \<Rightarrow> bool \<Rightarrow> js_error + TokenUsage" where
  "getTokenUsage data is_cached =
     and_then (js_get data ''usage'') (\<lambda>usage.
       if js_truthy usage then
         if is_cached then
           Inr \<lparr>total = Some (js_prop usage ''total_tokens''), prompt = None,
                completion = None, cached = Some (js_prop usage ''total_tokens'')\<rparr>
         else
           Inr \<lparr>total = Some (js_prop usage ''total_tokens''),
                prompt = Some (js_or (js_prop usage ''prompt_tokens'') (JNum 0)),
                completion = Some (js_or (js_prop usage ''completion_tokens'') (JNum 0)),
                cached = None\<rparr>
       else Inr \<lparr>total = None, prompt = None, completion = None, cached = None\<rparr>)"

text \<open>\<^verbatim>\<open>formatDatabricksError\<close> (lines 171-183).\<close>

definition formatDatabricksError :: "Collaborators \<Rightarrow> jsval \<Rightarrow> js_error + string" where
  "formatDatabricksError c data =
     and_then (js_get data ''error'') (\<lambda>err.
     and_then (js_get err ''message'') (\<lambda>msg.
       Inr (''API error: '' @ js_to_string c msg
            @ (if js_truthy (js_prop err ''type'')
               then '', Type: '' @ js_to_string c (js_prop err ''type'') else [])
            @ (if js_truthy (js_prop err ''code'')
               then '', Code: '' @ js_to_string c (js_prop err ''code'') else [])
            @ [CHR 0x0A, CHR 0x0A] @ safeJsonStringify c data True)))"

text \<open>\<^verbatim>\<open>x || undefined\<close> on a number.\<close>

definition or_undefined :: "rat \<Rightarrow> rat option" where
  "or_undefined x = (if x = 0 then None else Some x)"

text \<open>\<^verbatim>\<open>calculateCost\<close> (lines 185-205); \<open>None\<close> is \<^verbatim>\<open>undefined\<close>. A \<^verbatim>\<open>NaN\<close> operand
  makes the sum \<^verbatim>\<open>NaN\<close>, which is falsy. The catalog that is searched is a parameter of
  \<open>calculateCost_in\<close>, so that the guard \<^verbatim>\<open>!model.cost\<close> can be stated for an entry without
  cost; the function of the source searches \<open>DATABRICKS_CHAT_MODELS\<close>.\<close>

definition calculateCost_in ::
  "ModelEntry list \<Rightarrow> Collaborators \<Rightarrow> string \<Rightarrow> DatabricksCompletionOptions \<Rightarrow> jsval \<Rightarrow>
   jsval \<Rightarrow> rat option" where
  "calculateCost_in catalog c name cfg promptTokens completionTokens =
     (if js_truthy promptTokens \<and> js_truthy completionTokens then
        (case find (\<lambda>m. id_m m = name) catalog of
           None \<Rightarrow> None
         | Some model \<Rightarrow>
             (case cost_m model of
                None \<Rightarrow> None
              | Some model_cost \<Rightarrow>
                  (let inputCost = (case cost cfg of Some x \<Rightarrow> x | None \<Rightarrow> input_cost model_cost);
                       outputCost = (case cost cfg of Some x \<Rightarrow> x | None \<Rightarrow> output_cost model_cost)
                   in case (js_to_number c promptTokens, js_to_number c completionTokens) of
                        (Some p, Some q) \<Rightarrow>
                          or_undefined (dadd (dmul inputCost p) (dmul outputCost q))
                      | _ \<Rightarrow> None)))
      else None)"

definition calculateCost ::
  "Collaborators \<Rightarrow> string \<Rightarrow> DatabricksCompletionOptions \<Rightarrow> jsval \<Rightarrow> jsval \<Rightarrow> rat option" where
  "calculateCost = calculateCost_in DATABRICKS_CHAT_MODELS"

section \<open>The chat-completion call\<close>

record CallApiContextParams =
  vars :: "jsval option"

record CallApiOptionsParams =
  includeLogProbs :: "bool option"

definition api_key_error :: js_error where
  "api_key_error =
     ''Error: Databricks API key is not set. Set the DATABRICKS_API_KEY environment variable or add `apiKey` to the provider config.''"

text \<open>An object literal: a later definition of a key replaces the earlier value in place.\<close>

definition object_literal :: "('k \<times> 'v) list \<Rightarrow> ('k \<times> 'v) list" where
  "object_literal kvs = fold (\<lambda>kv acc. AList.update (fst kv) (snd kv) acc) kvs []"

fun opt_truthy :: "jsval option \<Rightarrow> bool" where
  "opt_truthy None = False"
| "opt_truthy (Some v) = js_truthy v"

text \<open>\<^verbatim>\<open>config.field ?? parse(process.env.NAME || 'default')\<close>.\<close>

definition number_setting ::
  "rat option \<Rightarrow> (string \<Rightarrow> jsval) \<Rightarrow> environment \<Rightarrow> string \<Rightarrow> string \<Rightarrow> jsval" where
  "number_setting configured parse penv name dflt =
     (case configured of
        Some n \<Rightarrow> JNum n
      | None \<Rightarrow> parse (the (str_or (penv name) (Some dflt))))"

text \<open>The request body (lines 236-258).\<close>

definition request_body ::
  "Collaborators \<Rightarrow> environment \<Rightarrow> Provider \<Rightarrow> string \<Rightarrow> CallApiContextParams option \<Rightarrow>
   CallApiOptionsParams option \<Rightarrow> jsval" where
  "request_body c penv p prompt_text context callApiOptions =
     (let cfg = config p;
          context_vars = (case context of None \<Rightarrow> None | Some ctx \<Rightarrow> vars ctx);
          messages = parseChatPrompt c prompt_text
                       (JArr [JObj [(''role'', JStr ''user''), (''content'', JStr prompt_text)]])
      in JObj (object_literal
          ([(''model'', JStr (modelName p)),
            (''messages'', messages),
            (''max_tokens'',
               number_setting (max_tokens cfg) (parseInt c) penv ''DATABRICKS_MAX_TOKENS'' ''1024''),
            (''temperature'',
               number_setting (temperature cfg) (parseFloat c) penv ''DATABRICKS_TEMPERATURE'' ''0''),
            (''top_p'', number_setting (top_p cfg) (parseFloat c) penv ''DATABRICKS_TOP_P'' ''1''),
            (''presence_penalty'',
               number_setting (presence_penalty cfg) (parseFloat c) penv
                 ''DATABRICKS_PRESENCE_PENALTY'' ''0''),
            (''frequency_penalty'',
               number_setting (frequency_penalty cfg) (parseFloat c) penv
                 ''DATABRICKS_FREQUENCY_PENALTY'' ''0'')]
           @ (if opt_truthy (functions_c cfg)
              then [(''functions'', renderVarsInObject c (the (functions_c cfg)) context_vars)]
              else [])
           @ (if opt_truthy (function_call cfg)
              then [(''function_call'', the (function_call cfg))] else [])
           @ (if opt_truthy (tools cfg)
              then [(''tools'', renderVarsInObject c (the (tools cfg)) context_vars)] else [])
           @ (if opt_truthy (tool_choice cfg)
              then [(''tool_choice'', the (tool_choice cfg))] else [])
           @ (if opt_truthy (response_format cfg)
              then [(''response_format'', the (response_format cfg))] else [])
           @ (case callApiOptions of
                None \<Rightarrow> []
              | Some options \<Rightarrow>
                  (if includeLogProbs options = Some True then [(''logprobs'', JBool True)]
                   else []))
           @ (if opt_truthy (stop cfg) then [(''stop'', the (stop cfg))] else [])
           @ (case passthrough cfg of None \<Rightarrow> [] | Some extra \<Rightarrow> extra))))"

text \<open>The URL and options of the fetch (lines 264-276).\<close>

definition request_url :: "environment \<Rightarrow> Provider \<Rightarrow> string" where
  "request_url penv p = getApiUrl penv p @ ''/chat/completions''"

definition request_options ::
  "Collaborators \<Rightarrow> environment \<Rightarrow> Provider \<Rightarrow> string \<Rightarrow> CallApiContextParams option \<Rightarrow>
   CallApiOptionsParams option \<Rightarrow> FetchOptions" where
  "request_options c penv p prompt_text context callApiOptions =
     \<lparr>http_method = ''POST'',
      headers_f = object_literal
        ([(''Content-Type'', ''application/json''),
          (''Authorization'',
             ''Bearer '' @ (case getApiKey penv p of Some k \<Rightarrow> k | None \<Rightarrow> ''undefined''))]
         @ (case headers (config p) of None \<Rightarrow> [] | Some hs \<Rightarrow> hs)),
      body = JSON_stringify c (request_body c penv p prompt_text context callApiOptions)\<rparr>"

text \<open>Output selection (lines 291-298), for a message that is neither \<^verbatim>\<open>undefined\<close> nor
  \<^verbatim>\<open>null\<close>.\<close>

definition select_output :: "jsval \<Rightarrow> jsval" where
  "select_output message =
     (if js_truthy (js_prop message ''content'')
         \<and> js_truthy (js_or (js_prop message ''function_call'') (js_prop message ''tool_calls''))
      then message
      else if js_prop message ''content'' = JNull
      then js_or (js_prop message ''function_call'') (js_prop message ''tool_calls'')
      else js_prop message ''content'')"

text \<open>\<^verbatim>\<open>data.choices[0].logprobs?.content?.map(o => o.logprob)\<close> (lines 299-301), for a
  first choice that is neither \<^verbatim>\<open>undefined\<close> nor \<^verbatim>\<open>null\<close>.\<close>

definition extract_logProbs :: "jsval \<Rightarrow> js_error + jsval" where
  "extract_logProbs choice =
     (let lp = js_prop choice ''logprobs'' in
      if nullish lp then Inr JUndefined
      else let content = js_prop lp ''content'' in
        if nullish content then Inr JUndefined
        else (case content of
                JArr entries \<Rightarrow>
                  and_then (map_throwing (\<lambda>logProbObj. js_get logProbObj ''logprob'') entries)
                    (\<lambda>ys. Inr (JArr ys))
              | _ \<Rightarrow> Inl ''TypeError: data.choices[0].logprobs?.content?.map is not a function''))"

text \<open>What \<^verbatim>\<open>for (const functionCall of functionCalls)\<close> iterates over.\<close>

fun iterate :: "jsval \<Rightarrow> js_error + jsval list" where
  "iterate (JArr xs) = Inr xs"
| "iterate (JStr s) = Inr (map (\<lambda>ch. JStr [ch]) s)"
| "iterate v = Inl ''TypeError: functionCalls is not iterable''"

text \<open>
  The loop over the function calls (lines 306-325). It ends by an exception, by the first
  call whose name has a callback (\<open>Some\<close> of what the callback resolved to), or without a
  match (\<open>None\<close>). Inherited properties of the callback table are not modelled.
\<close>

fun dispatch_callbacks ::
  "Collaborators \<Rightarrow> (string \<rightharpoonup> callback) \<Rightarrow> jsval \<Rightarrow> jsval list \<Rightarrow>
   event list \<times> (js_error + string option)" where
  "dispatch_callbacks c callbacks message [] = ([], Inr None)"
| "dispatch_callbacks c callbacks message (functionCall # rest) =
     (case js_get functionCall ''name'' of
        Inl e \<Rightarrow> ([], Inl e)
      | Inr functionName \<Rightarrow>
          (case callbacks (js_to_string c functionName) of
             None \<Rightarrow> dispatch_callbacks c callbacks message rest
           | Some callback \<Rightarrow>
               (case js_get (js_prop message ''function_call'') ''arguments'' of
                  Inl e \<Rightarrow> ([], Inl e)
                | Inr arg \<Rightarrow>
                    ([CallbackCall (js_to_string c functionName) arg],
                     (case callback arg of Inl e \<Rightarrow> Inl e | Inr s \<Rightarrow> Inr (Some s))))))"

text \<open>The object returned at lines 312-323 and 328-339.\<close>

definition success_result ::
  "Collaborators \<Rightarrow> Provider \<Rightarrow> jsval \<Rightarrow> bool \<Rightarrow> jsval \<Rightarrow> jsval \<Rightarrow> js_error + ProviderResponse" where
  "success_result c p data is_cached out lps =
     and_then (getTokenUsage data is_cached) (\<lambda>usage.
     and_then (js_get data ''usage'') (\<lambda>u.
       Inr \<lparr>output = Some out, error = None, tokenUsage = Some usage,
            cached_r = Some is_cached, logProbs = Some lps,
            cost_r = Some (case calculateCost c (modelName p) (config p)
                                  (js_get_opt u ''prompt_tokens'')
                                  (js_get_opt u ''completion_tokens'') of
                             None \<Rightarrow> JUndefined
                           | Some x \<Rightarrow> JNum x)\<rparr>))"

text \<open>\<^verbatim>\<open>const functionCalls = message.function_call ? [message.function_call] :
  message.tool_calls\<close> (line 304).\<close>

definition function_calls :: "jsval \<Rightarrow> jsval" where
  "function_calls message =
     (if js_truthy (js_prop message ''function_call'')
      then JArr [js_prop message ''function_call'']
      else js_prop message ''tool_calls'')"

text \<open>Lines 303-339: the function tool callbacks and the two \<^verbatim>\<open>return\<close> statements, for
  the selected \<open>out\<close> and the extracted \<open>lps\<close>.\<close>

definition callbacks_and_return ::
  "Collaborators \<Rightarrow> Provider \<Rightarrow> jsval \<Rightarrow> bool \<Rightarrow> jsval \<Rightarrow> jsval \<Rightarrow> jsval \<Rightarrow>
   event list \<times> (js_error + ProviderResponse)" where
  "callbacks_and_return c p data is_cached message out lps =
     (case (if js_truthy (function_calls message) then functionToolCallbacks (config p)
            else None) of
        None \<Rightarrow> ([], success_result c p data is_cached out lps)
      | Some callbacks \<Rightarrow>
          (case iterate (function_calls message) of
             Inl e \<Rightarrow> ([], Inl e)
           | Inr calls \<Rightarrow>
               (case dispatch_callbacks c callbacks message calls of
                  (evs, Inl e) \<Rightarrow> (evs, Inl e)
                | (evs, Inr (Some functionResult)) \<Rightarrow>
                    (evs, success_result c p data is_cached (JStr functionResult) lps)
                | (evs, Inr None) \<Rightarrow> (evs, success_result c p data is_cached out lps))))"

text \<open>\<^verbatim>\<open>data.choices[0].message\<close>.\<close>

definition first_message :: "jsval \<Rightarrow> js_error + jsval" where
  "first_message data =
     and_then (and_then (js_get data ''choices'') js_index0) (\<lambda>choice. js_get choice ''message'')"

text \<open>The body of the second \<^verbatim>\<open>try\<close> (lines 290-339): the calls made and either the
  exception thrown inside it or the value returned. Reading \<^verbatim>\<open>message.content\<close> throws when
  the message is \<^verbatim>\<open>undefined\<close> or \<^verbatim>\<open>null\<close>.\<close>

definition parse_response ::
  "Collaborators \<Rightarrow> Provider \<Rightarrow> jsval \<Rightarrow> bool \<Rightarrow> event list \<times> (js_error + ProviderResponse)" where
  "parse_response c p data is_cached =
     (case and_then (js_get data ''choices'') js_index0 of
        Inl e \<Rightarrow> ([], Inl e)
      | Inr choice \<Rightarrow>
          (case and_then (js_get choice ''message'')
                  (\<lambda>m. and_then (js_get m ''content'') (\<lambda>_. Inr m)) of
             Inl e \<Rightarrow> ([], Inl e)
           | Inr message \<Rightarrow>
               (case extract_logProbs choice of
                  Inl e \<Rightarrow> ([], Inl e)
                | Inr lps \<Rightarrow>
                    callbacks_and_return c p data is_cached message
                      (select_output message) lps)))"

text \<open>
  \<^verbatim>\<open>DatabricksChatCompletionProvider.callApi\<close> (lines 225-345): the calls it makes and how it
  ends.
\<close>

definition callApi ::
  "Collaborators \<Rightarrow> environment \<Rightarrow> Provider \<Rightarrow> string \<Rightarrow> CallApiContextParams option \<Rightarrow>
   CallApiOptionsParams option \<Rightarrow> event list \<times> ProviderResponse outcome" where
  "callApi c penv p prompt_text context callApiOptions =
     (if str_truthy (getApiKey penv p) then
        (let url = request_url penv p;
             options = request_options c penv p prompt_text context callApiOptions;
             call = FetchCall url options (REQUEST_TIMEOUT_MS c)
         in case fetchWithCache c url options (REQUEST_TIMEOUT_MS c) of
              Inl err \<Rightarrow> ([call], Returned (error_result (''API call error: '' @ err)))
            | Inr (data, is_cached) \<Rightarrow>
                (case js_get data ''error'' of
                   Inl e \<Rightarrow> ([call], Thrown e)
                 | Inr data_error \<Rightarrow>
                     if js_truthy data_error then
                       (case formatDatabricksError c data of
                          Inl e \<Rightarrow> ([call], Thrown e)
                        | Inr msg \<Rightarrow> ([call], Returned (error_result msg)))
                     else
                       (case parse_response c p data is_cached of
                          (evs, Inl e) \<Rightarrow>
                            (call # evs,
                             Returned (error_result
                               (''API error: '' @ e @ '': '' @ JSON_stringify c data)))
                        | (evs, Inr r) \<Rightarrow> (call # evs, Returned r))))
      else ([], Thrown api_key_error))"

section \<open>Notions used in the statements\<close>

text \<open>The fetch an invocation issues, and what the transport answers to it.\<close>

definition the_request ::
  "Collaborators \<Rightarrow> environment \<Rightarrow> Provider \<Rightarrow> string \<Rightarrow> CallApiContextParams option \<Rightarrow>
   CallApiOptionsParams option \<Rightarrow> event" where
  "the_request c penv p prompt_text context callApiOptions =
     FetchCall (request_url penv p)
       (request_options c penv p prompt_text context callApiOptions) (REQUEST_TIMEOUT_MS c)"

definition transport_answer ::
  "Collaborators \<Rightarrow> environment \<Rightarrow> Provider \<Rightarrow> string \<Rightarrow> CallApiContextParams option \<Rightarrow>
   CallApiOptionsParams option \<Rightarrow> js_error + (jsval \<times> bool)" where
  "transport_answer c penv p prompt_text context callApiOptions =
     fetchWithCache c (request_url penv p)
       (request_options c penv p prompt_text context callApiOptions) (REQUEST_TIMEOUT_MS c)"

subsection \<open>Concrete instances\<close>

text \<open>
  A mocked set of collaborators whose transport answers every request with \<open>answer\<close>, and
  provider instances, for evaluating the definitions on concrete inputs.
\<close>

definition mock_collaborators :: "(js_error + (jsval \<times> bool)) \<Rightarrow> Collaborators" where
  "mock_collaborators answer =
     \<lparr>fetchWithCache = (\<lambda>url options timeout. answer),
      REQUEST_TIMEOUT_MS = 300000,
      parseChatPrompt = (\<lambda>prompt_text dflt. dflt),
      renderVarsInObject = (\<lambda>v vs. v),
      safeJsonStringify = (\<lambda>v pretty. ''<pretty-printed body>''),
      JSON_stringify = (\<lambda>v. ''<body>''),
      ToString = (\<lambda>v. ''<string>''),
      ToNumber = (\<lambda>v. None),
      parseInt = (\<lambda>s. JNum 1024),
      parseFloat = (\<lambda>s. JNum 0)\<rparr>"

definition config_with_key :: DatabricksCompletionOptions where
  "config_with_key = empty_config\<lparr>apiKey := Some ''secret''\<rparr>"

definition keyed_provider :: Provider where
  "keyed_provider =
     new_provider ''databricks-dbrx-instruct'' (no_options\<lparr>config_o := Some config_with_key\<rparr>)"

text \<open>A provider with a callback registered for the function name \<^verbatim>\<open>lookup\<close> that resolves
  to \<^verbatim>\<open>"42"\<close>.\<close>

definition lookup_provider :: Provider where
  "lookup_provider =
     new_provider ''databricks-dbrx-instruct''
       (no_options\<lparr>config_o := Some (config_with_key
          \<lparr>functionToolCallbacks := Some [''lookup'' \<mapsto> (\<lambda>arg. Inr ''42'')]\<rparr>)\<rparr>)"

text \<open>A response body with one choice carrying \<open>message\<close> and a usage object.\<close>

definition completion_body :: "jsval \<Rightarrow> jsval" where
  "completion_body message =
     JObj [(''choices'', JArr [JObj [(''message'', message)]]),
           (''usage'', JObj [(''total_tokens'', JNum 30), (''prompt_tokens'', JNum 10),
                             (''completion_tokens'', JNum 20)])]"

subsection \<open>Auxiliary notions\<close>

text \<open>The first truthy string of a list of optional strings, if any.\<close>

definition first_truthy :: "string option list \<Rightarrow> string option" where
  "first_truthy xs = (case filter str_truthy xs of [] \<Rightarrow> None | x # _ \<Rightarrow> x)"




text \<open>An optional string if it is truthy, nothing otherwise.\<close>

definition truthy_part :: "string option \<Rightarrow> string option" where
  "truthy_part a = (if str_truthy a then a else None)"

text \<open>The output and the error of a returned result (nothing when the invocation threw).\<close>

definition returned_output :: "ProviderResponse outcome \<Rightarrow> jsval option" where
  "returned_output result = (case result of Returned r \<Rightarrow> output r | Thrown e \<Rightarrow> None)"

definition returned_error :: "ProviderResponse outcome \<Rightarrow> string option" where
  "returned_error result = (case result of Returned r \<Rightarrow> error r | Thrown e \<Rightarrow> None)"

section \<open>Configuration resolution\<close>

lemma str_or_truthy_iff: "str_truthy (str_or a b) \<longleftrightarrow> str_truthy a \<or> str_truthy b"
  by (simp add: str_or_def)

lemma first_truthy_Cons:
  "first_truthy (x # xs) = (if str_truthy x then x else first_truthy xs)"
  by (simp add: first_truthy_def)

lemma first_truthy_Nil: "first_truthy [] = None"
  by (simp add: first_truthy_def)

lemma first_truthy_str_or:
  "first_truthy (a # b # xs) = first_truthy (str_or a b # xs)"
  by (simp add: first_truthy_Cons str_or_def)

lemma first_truthy_single: "first_truthy [a] = truthy_part a"
  by (simp add: first_truthy_Cons first_truthy_Nil truthy_part_def)

lemma truthy_part_cases:
  "(case truthy_part a of Some s \<Rightarrow> f s | None \<Rightarrow> g) = (if str_truthy a then f (the a) else g)"
  by (cases a) (simp_all add: truthy_part_def)

subsection \<open>Identity\<close>

text \<open>
  C7 (as amended): an instance constructed with a non-empty \<^verbatim>\<open>id\<close> option answers
  \<^verbatim>\<open>id()\<close> with that id. Every other instance answers with the bare model name when
  \<^verbatim>\<open>apiHost\<close> or \<^verbatim>\<open>apiBaseUrl\<close> is set (non-empty) in its config, and with
  \<^verbatim>\<open>"databricks:" + modelName\<close> otherwise.
\<close>

theorem provider_id_cases:
  "provider_id (new_provider name options) =
     (if str_truthy (id_o options) then the (id_o options)
      else if str_truthy (apiHost (config (new_provider name options)))
              \<or> str_truthy (apiBaseUrl (config (new_provider name options)))
      then name else ''databricks:'' @ name)"
  by (cases "id_o options")
     (simp_all add: provider_id_def new_provider_def id_method_def str_or_truthy_iff)

text \<open>The three cases of the spec's test on concrete instances without an \<^verbatim>\<open>id\<close>
  option.\<close>

theorem provider_id_cases_witness:
  "provider_id (new_provider ''m'' no_options) = ''databricks:m''
   \<and> provider_id (new_provider ''m''
        (no_options\<lparr>config_o := Some (empty_config\<lparr>apiHost := Some ''h.example''\<rparr>)\<rparr>)) = ''m''
   \<and> provider_id (new_provider ''m''
        (no_options\<lparr>config_o := Some (empty_config\<lparr>apiBaseUrl := Some ''https://h.example/v1''\<rparr>)\<rparr>))
       = ''m''"
  using provider_id_cases [of "''m''" no_options]
    provider_id_cases [of "''m''"
      "no_options\<lparr>config_o := Some (empty_config\<lparr>apiHost := Some ''h.example''\<rparr>)\<rparr>"]
    provider_id_cases [of "''m''"
      "no_options\<lparr>config_o := Some (empty_config\<lparr>apiBaseUrl := Some ''https://h.example/v1''\<rparr>)\<rparr>"]
  by (simp add: new_provider_def no_options_def empty_config_def)

text \<open>
  C7 as stated fails for an instance constructed with an \<^verbatim>\<open>id\<close> option: no host and no
  base URL are configured, yet \<^verbatim>\<open>id()\<close> is not the namespaced id.
\<close>

theorem provider_id_counterexample:
  "apiHost (config (new_provider ''m'' (no_options\<lparr>id_o := Some ''custom''\<rparr>))) = None
   \<and> apiBaseUrl (config (new_provider ''m'' (no_options\<lparr>id_o := Some ''custom''\<rparr>))) = None
   \<and> provider_id (new_provider ''m'' (no_options\<lparr>id_o := Some ''custom''\<rparr>)) = ''custom''
   \<and> provider_id (new_provider ''m'' (no_options\<lparr>id_o := Some ''custom''\<rparr>))
       \<noteq> ''databricks:'' @ ''m''"
  by (simp add: provider_id_def new_provider_def no_options_def empty_config_def)

subsection \<open>Base URL\<close>

text \<open>
  C6 (as amended): the base URL is \<^verbatim>\<open>https://{host}\<close> for the first non-empty host among
  the config's \<^verbatim>\<open>apiHost\<close>, the override map's \<^verbatim>\<open>DATABRICKS_API_HOST\<close> and the process
  environment's \<^verbatim>\<open>DATABRICKS_API_HOST\<close>; when there is none, it is the first non-empty value
  among the config's \<^verbatim>\<open>apiBaseUrl\<close>, the override map's \<^verbatim>\<open>DATABRICKS_API_BASE_URL\<close> and
  \<^verbatim>\<open>DATABRICKS_BASE_URL\<close>, and the process environment's \<^verbatim>\<open>DATABRICKS_API_BASE_URL\<close> and
  \<^verbatim>\<open>DATABRICKS_BASE_URL\<close>; when there is none either, it is the default endpoint. A host
  from any of its three sources thus takes priority over every base URL.
\<close>

theorem getApiUrl_precedence:
  "getApiUrl penv p =
     (case first_truthy [apiHost (config p), env_get (env p) ''DATABRICKS_API_HOST'',
                         penv ''DATABRICKS_API_HOST''] of
        Some host \<Rightarrow> ''https://'' @ host
      | None \<Rightarrow>
          (case first_truthy [apiBaseUrl (config p),
                              env_get (env p) ''DATABRICKS_API_BASE_URL'',
                              env_get (env p) ''DATABRICKS_BASE_URL'',
                              penv ''DATABRICKS_API_BASE_URL'',
                              penv ''DATABRICKS_BASE_URL''] of
             Some url \<Rightarrow> url
           | None \<Rightarrow> getApiUrlDefault))"
proof -
  have base: "(case first_truthy [a, b, c, d, e] of Some url \<Rightarrow> url | None \<Rightarrow> dflt)
      = the (str_or (str_or (str_or (str_or (str_or a b) c) d) e) (Some dflt))" for a b c d e dflt
    by (simp only: first_truthy_str_or first_truthy_single truthy_part_cases)
       (simp add: str_or_def)
  have host: "(case first_truthy [a, b, c] of Some h \<Rightarrow> f h | None \<Rightarrow> g)
      = (if str_truthy (str_or (str_or a b) c) then f (the (str_or (str_or a b) c)) else g)"
    for a b c and f :: "string \<Rightarrow> string" and g
    by (simp only: first_truthy_str_or first_truthy_single truthy_part_cases)
  show ?thesis
    unfolding host base by (simp add: getApiUrl_def Let_def)
qed

text \<open>The spec's two tests: only the override map's base URL is set; the config's host and
  the override map's base URL are both set.\<close>

theorem getApiUrl_precedence_witness:
  "getApiUrl Map.empty
     (new_provider ''m''
        (no_options\<lparr>env_o := Some [''DATABRICKS_API_BASE_URL'' \<mapsto> ''https://env.example/v1'']\<rparr>))
     = ''https://env.example/v1''
   \<and> getApiUrl Map.empty
     (new_provider ''m''
        (no_options\<lparr>config_o := Some (empty_config\<lparr>apiHost := Some ''h.example''\<rparr>),
                    env_o := Some [''DATABRICKS_API_BASE_URL'' \<mapsto> ''https://env.example/v1'']\<rparr>))
     = ''https://h.example''"
  using getApiUrl_precedence [of Map.empty "new_provider ''m''
        (no_options\<lparr>env_o := Some [''DATABRICKS_API_BASE_URL'' \<mapsto> ''https://env.example/v1'']\<rparr>)"]
    getApiUrl_precedence [of Map.empty "new_provider ''m''
        (no_options\<lparr>config_o := Some (empty_config\<lparr>apiHost := Some ''h.example''\<rparr>),
                    env_o := Some [''DATABRICKS_API_BASE_URL'' \<mapsto> ''https://env.example/v1'']\<rparr>)"]
  by (simp add: new_provider_def no_options_def empty_config_def env_get_def
        first_truthy_Cons first_truthy_Nil)

text \<open>
  C6 as stated fails: with no per-instance host and a per-instance base URL, a host in the
  process environment wins over the per-instance base URL.
\<close>

theorem getApiUrl_counterexample:
  "apiHost (config (new_provider ''m''
      (no_options\<lparr>config_o := Some (empty_config\<lparr>apiBaseUrl := Some ''https://custom.example/v1''\<rparr>)\<rparr>)))
     = None
   \<and> apiBaseUrl (config (new_provider ''m''
      (no_options\<lparr>config_o := Some (empty_config\<lparr>apiBaseUrl := Some ''https://custom.example/v1''\<rparr>)\<rparr>)))
     = Some ''https://custom.example/v1''
   \<and> getApiUrl [''DATABRICKS_API_HOST'' \<mapsto> ''h.example'']
       (new_provider ''m''
         (no_options\<lparr>config_o := Some (empty_config\<lparr>apiBaseUrl := Some ''https://custom.example/v1''\<rparr>)\<rparr>))
     = ''https://h.example''
   \<and> getApiUrl [''DATABRICKS_API_HOST'' \<mapsto> ''h.example'']
       (new_provider ''m''
         (no_options\<lparr>config_o := Some (empty_config\<lparr>apiBaseUrl := Some ''https://custom.example/v1''\<rparr>)\<rparr>))
     \<noteq> ''https://custom.example/v1''"
  by (simp add: getApiUrl_def new_provider_def no_options_def empty_config_def env_get_def
        str_or_def)

subsection \<open>API key\<close>

lemma getApiKey_truthy_iff:
  "str_truthy (getApiKey penv p) \<longleftrightarrow>
     str_truthy (apiKey (config p))
     \<or> (str_truthy (apiKeyEnvar (config p))
        \<and> (str_truthy (penv (the (apiKeyEnvar (config p))))
           \<or> str_truthy (env_get (env p) (the (apiKeyEnvar (config p))))))
     \<or> str_truthy (env_get (env p) ''DATABRICKS_API_KEY'')
     \<or> str_truthy (penv ''DATABRICKS_API_KEY'')"
  by (simp add: getApiKey_def str_or_truthy_iff)

lemma callApi_no_key:
  "\<not> str_truthy (getApiKey penv p) \<Longrightarrow>
     callApi c penv p prompt_text context callApiOptions = ([], Thrown api_key_error)"
  by (simp add: callApi_def)

text \<open>
  C2: when no API key resolves -- none inline in the config, none under the environment
  variable the config names (in the process environment or the override map), none under
  \<^verbatim>\<open>DATABRICKS_API_KEY\<close> in the override map or the process environment -- the invocation
  throws the configuration error and makes no call at all, so the transport is never reached.
\<close>

theorem missing_api_key_fails_before_fetch:
  assumes "\<not> str_truthy (apiKey (config p))"
    and "str_truthy (apiKeyEnvar (config p)) \<Longrightarrow>
           \<not> str_truthy (penv (the (apiKeyEnvar (config p))))
           \<and> \<not> str_truthy (env_get (env p) (the (apiKeyEnvar (config p))))"
    and "\<not> str_truthy (env_get (env p) ''DATABRICKS_API_KEY'')"
    and "\<not> str_truthy (penv ''DATABRICKS_API_KEY'')"
  shows "callApi c penv p prompt_text context callApiOptions = ([], Thrown api_key_error)"
proof -
  from assms have "\<not> str_truthy (getApiKey penv p)"
    by (auto simp: getApiKey_truthy_iff)
  then show ?thesis by (rule callApi_no_key)
qed

text \<open>A provider without any key source, on a transport that would answer.\<close>

theorem missing_api_key_fails_before_fetch_witness:
  "callApi (mock_collaborators (Inr (completion_body (JObj [(''content'', JStr ''hi'')]), False)))
     Map.empty (new_provider ''databricks-dbrx-instruct'' no_options) ''hello'' None None
   = ([], Thrown api_key_error)"
proof -
  let ?p = "new_provider ''databricks-dbrx-instruct'' no_options"
  have a: "\<not> str_truthy (apiKey (config ?p))"
    by (simp add: new_provider_def no_options_def empty_config_def)
  have b: "str_truthy (apiKeyEnvar (config ?p)) \<Longrightarrow>
           \<not> str_truthy (Map.empty (the (apiKeyEnvar (config ?p))))
           \<and> \<not> str_truthy (env_get (env ?p) (the (apiKeyEnvar (config ?p))))"
    by (simp add: new_provider_def no_options_def empty_config_def)
  have c: "\<not> str_truthy (env_get (env ?p) ''DATABRICKS_API_KEY'')"
    by (simp add: new_provider_def no_options_def env_get_def)
  have d: "\<not> str_truthy ((Map.empty :: environment) ''DATABRICKS_API_KEY'')"
    by simp
  show ?thesis
    using missing_api_key_fails_before_fetch [of ?p Map.empty, OF a b c d] by simp
qed

section \<open>Token usage\<close>

text \<open>
  C4: for a response with a usage object, a cache hit reports exactly \<^verbatim>\<open>cached\<close> and
  \<^verbatim>\<open>total\<close>, both equal to \<^verbatim>\<open>total_tokens\<close>, and no \<^verbatim>\<open>prompt\<close> or \<^verbatim>\<open>completion\<close>; a fresh
  call reports \<^verbatim>\<open>total = total_tokens\<close>, \<^verbatim>\<open>prompt = prompt_tokens\<close> and
  \<^verbatim>\<open>completion = completion_tokens\<close>, the latter two being 0 when absent, and no \<^verbatim>\<open>cached\<close>.
  For a response without a usage object no field is emitted.
\<close>

theorem token_usage_normalization:
  "(map_of resp ''usage'' = Some (JObj u) \<longrightarrow>
      getTokenUsage (JObj resp) True =
        Inr \<lparr>total = Some (js_prop (JObj u) ''total_tokens''), prompt = None, completion = None,
             cached = Some (js_prop (JObj u) ''total_tokens'')\<rparr>
      \<and> (\<exists>pr co.
           getTokenUsage (JObj resp) False =
             Inr \<lparr>total = Some (js_prop (JObj u) ''total_tokens''), prompt = Some pr,
                  completion = Some co, cached = None\<rparr>
           \<and> (map_of u ''prompt_tokens'' = None \<longrightarrow> pr = JNum 0)
           \<and> (\<forall>n. map_of u ''prompt_tokens'' = Some (JNum n) \<longrightarrow> pr = JNum n)
           \<and> (map_of u ''completion_tokens'' = None \<longrightarrow> co = JNum 0)
           \<and> (\<forall>n. map_of u ''completion_tokens'' = Some (JNum n) \<longrightarrow> co = JNum n)))
   \<and> (map_of resp ''usage'' = None \<longrightarrow>
        getTokenUsage (JObj resp) is_cached =
          Inr \<lparr>total = None, prompt = None, completion = None, cached = None\<rparr>)"
  by (auto simp: getTokenUsage_def and_then_def js_get_def js_or_def)

text \<open>The spec's examples: \<^verbatim>\<open>total_tokens = 30\<close> on a cache hit; 30/10/20 on a fresh call;
  absent counts; no usage object.\<close>

theorem token_usage_normalization_witness:
  "getTokenUsage (JObj [(''usage'', JObj [(''total_tokens'', JNum 30)])]) True =
     Inr \<lparr>total = Some (JNum 30), prompt = None, completion = None, cached = Some (JNum 30)\<rparr>
   \<and> getTokenUsage (JObj [(''usage'', JObj [(''total_tokens'', JNum 30),
         (''prompt_tokens'', JNum 10), (''completion_tokens'', JNum 20)])]) False =
     Inr \<lparr>total = Some (JNum 30), prompt = Some (JNum 10), completion = Some (JNum 20),
          cached = None\<rparr>
   \<and> getTokenUsage (JObj [(''usage'', JObj [(''total_tokens'', JNum 30)])]) False =
     Inr \<lparr>total = Some (JNum 30), prompt = Some (JNum 0), completion = Some (JNum 0),
          cached = None\<rparr>
   \<and> getTokenUsage (JObj [(''choices'', JArr [])]) False =
     Inr \<lparr>total = None, prompt = None, completion = None, cached = None\<rparr>"
  using token_usage_normalization
      [of "[(''usage'', JObj [(''total_tokens'', JNum 30)])]" "[(''total_tokens'', JNum 30)]"]
    token_usage_normalization
      [of "[(''usage'', JObj [(''total_tokens'', JNum 30),
         (''prompt_tokens'', JNum 10), (''completion_tokens'', JNum 20)])]"
          "[(''total_tokens'', JNum 30), (''prompt_tokens'', JNum 10),
            (''completion_tokens'', JNum 20)]"]
    token_usage_normalization [of "[(''choices'', JArr [])]" "[]" False]
  by auto

section \<open>The invocation\<close>

subsection \<open>The paths through \<open>callApi\<close>\<close>

lemma js_get_Inr_iff: "js_get v k = Inr x \<longleftrightarrow> \<not> nullish v \<and> x = js_prop v k"
  by (auto simp: js_get_def)

lemma js_get_Inl_iff: "js_get v k = Inl e \<longleftrightarrow> nullish v \<and> e = type_error_read v k"
  by (auto simp: js_get_def)

lemma js_truthy_not_nullish: "js_truthy v \<Longrightarrow> \<not> nullish v"
  by (cases v) simp_all

lemma callApi_fetch_throws:
  assumes "str_truthy (getApiKey penv p)"
    and "transport_answer c penv p prompt_text context callApiOptions = Inl err"
  shows "callApi c penv p prompt_text context callApiOptions =
           ([the_request c penv p prompt_text context callApiOptions],
            Returned (error_result (''API call error: '' @ err)))"
  using assms by (simp add: callApi_def transport_answer_def the_request_def Let_def)

lemma callApi_nullish_body:
  assumes "str_truthy (getApiKey penv p)"
    and "transport_answer c penv p prompt_text context callApiOptions = Inr (data, is_cached)"
    and "nullish data"
  shows "callApi c penv p prompt_text context callApiOptions =
           ([the_request c penv p prompt_text context callApiOptions],
            Thrown (type_error_read data ''error''))"
  using assms by (simp add: callApi_def transport_answer_def the_request_def Let_def js_get_def)

lemma formatDatabricksError_truthy:
  assumes "\<not> nullish data" and "js_truthy (js_prop data ''error'')"
  shows "formatDatabricksError c data =
     Inr (''API error: '' @ js_to_string c (js_prop (js_prop data ''error'') ''message'')
          @ (if js_truthy (js_prop (js_prop data ''error'') ''type'')
             then '', Type: '' @ js_to_string c (js_prop (js_prop data ''error'') ''type'') else [])
          @ (if js_truthy (js_prop (js_prop data ''error'') ''code'')
             then '', Code: '' @ js_to_string c (js_prop (js_prop data ''error'') ''code'') else [])
          @ [CHR 0x0A, CHR 0x0A] @ safeJsonStringify c data True)"
  using assms js_truthy_not_nullish [OF assms(2)]
  by (simp add: formatDatabricksError_def and_then_def js_get_def)

lemma callApi_remote_error:
  assumes "str_truthy (getApiKey penv p)"
    and "transport_answer c penv p prompt_text context callApiOptions = Inr (data, is_cached)"
    and "\<not> nullish data" and "js_truthy (js_prop data ''error'')"
  shows "callApi c penv p prompt_text context callApiOptions =
           ([the_request c penv p prompt_text context callApiOptions],
            Returned (error_result (projr (formatDatabricksError c data))))"
  using assms
  by (simp add: callApi_def transport_answer_def the_request_def Let_def js_get_def
        formatDatabricksError_truthy)

lemma callApi_parsed:
  assumes "str_truthy (getApiKey penv p)"
    and "transport_answer c penv p prompt_text context callApiOptions = Inr (data, is_cached)"
    and "\<not> nullish data" and "\<not> js_truthy (js_prop data ''error'')"
  shows "callApi c penv p prompt_text context callApiOptions =
           (the_request c penv p prompt_text context callApiOptions
              # fst (parse_response c p data is_cached),
            Returned (case snd (parse_response c p data is_cached) of
                        Inl e \<Rightarrow> error_result (''API error: '' @ e @ '': '' @ JSON_stringify c data)
                      | Inr r \<Rightarrow> r))"
  using assms
  by (simp add: callApi_def transport_answer_def the_request_def Let_def js_get_def
        split: prod.splits sum.splits)

lemma dispatch_callbacks_matched:
  "dispatch_callbacks c callbacks message calls = (evs, Inr (Some s)) \<Longrightarrow>
     \<exists>name arg. evs = [CallbackCall name arg]"
  by (induction calls) (auto split: sum.splits option.splits)

lemma dispatch_callbacks_unmatched:
  "dispatch_callbacks c callbacks message calls = (evs, Inr None) \<Longrightarrow> evs = []"
  by (induction calls) (auto split: sum.splits option.splits)

lemma success_result_fields:
  assumes "success_result c p data is_cached out lps = Inr r"
  shows "output r = Some out \<and> error r = None \<and> cached_r r = Some is_cached
         \<and> logProbs r = Some lps
         \<and> getTokenUsage data is_cached = Inr (the (tokenUsage r)) \<and> tokenUsage r \<noteq> None
         \<and> cost_r r = Some (case calculateCost c (modelName p) (config p)
                                  (js_get_opt (js_prop data ''usage'') ''prompt_tokens'')
                                  (js_get_opt (js_prop data ''usage'') ''completion_tokens'') of
                             None \<Rightarrow> JUndefined | Some x \<Rightarrow> JNum x)"
  using assms
  by (auto simp: success_result_def and_then_def js_get_Inr_iff split: sum.splits)

lemma success_result_total:
  "\<not> nullish data \<Longrightarrow> \<exists>r. success_result c p data is_cached out lps = Inr r"
  by (simp add: success_result_def and_then_def js_get_def getTokenUsage_def)


lemma callbacks_and_return_success:
  assumes "callbacks_and_return c p data is_cached message out lps = (evs, Inr r)"
  shows "error r = None
         \<and> (evs = [] \<and> output r = Some out
            \<or> (\<exists>name arg s. evs = [CallbackCall name arg] \<and> output r = Some (JStr s)))"
proof (cases "if js_truthy (function_calls message) then functionToolCallbacks (config p)
              else None")
  case None
  with assms have "evs = []" "success_result c p data is_cached out lps = Inr r"
    by (simp_all add: callbacks_and_return_def)
  then show ?thesis using success_result_fields by blast
next
  case (Some callbacks)
  with assms obtain calls where calls: "iterate (function_calls message) = Inr calls"
    by (auto simp: callbacks_and_return_def split: sum.splits)
  obtain evs' res where d: "dispatch_callbacks c callbacks message calls = (evs', res)"
    by (cases "dispatch_callbacks c callbacks message calls")
  with assms Some calls obtain found where res: "res = Inr found"
    by (cases res) (auto simp: callbacks_and_return_def)
  show ?thesis
  proof (cases found)
    case None
    with assms Some calls d res
    have "evs = evs'" "success_result c p data is_cached out lps = Inr r"
      by (simp_all add: callbacks_and_return_def)
    moreover from d res None have "evs' = []" by (simp add: dispatch_callbacks_unmatched)
    ultimately show ?thesis using success_result_fields by blast
  next
    case found: (Some functionResult)
    with assms Some calls d res
    have "evs = evs'" "success_result c p data is_cached (JStr functionResult) lps = Inr r"
      by (simp_all add: callbacks_and_return_def)
    moreover from d res found obtain name arg where "evs' = [CallbackCall name arg]"
      using dispatch_callbacks_matched by blast
    ultimately show ?thesis using success_result_fields by blast
  qed
qed

lemma parse_response_success:
  assumes "parse_response c p data is_cached = (evs, Inr r)"
  shows "\<exists>message. first_message data = Inr message \<and> \<not> nullish message \<and> error r = None
           \<and> (evs = [] \<and> output r = Some (select_output message)
              \<or> (\<exists>name arg s. evs = [CallbackCall name arg] \<and> output r = Some (JStr s)))"
proof -
  from assms obtain choice where choice: "and_then (js_get data ''choices'') js_index0 = Inr choice"
    by (auto simp: parse_response_def split: sum.splits)
  from assms choice obtain message where
    message: "and_then (js_get choice ''message'') (\<lambda>m. and_then (js_get m ''content'') (\<lambda>_. Inr m))
                = Inr message"
    by (auto simp: parse_response_def split: sum.splits)
  then have m: "js_get choice ''message'' = Inr message" and nn: "\<not> nullish message"
    by (auto simp: and_then_def js_get_Inr_iff split: sum.splits)
  from choice m have fm: "first_message data = Inr message"
    by (simp add: first_message_def and_then_def)
  from assms choice message obtain lps where lps: "extract_logProbs choice = Inr lps"
    by (auto simp: parse_response_def split: sum.splits)
  from assms choice message lps
  have "callbacks_and_return c p data is_cached message (select_output message) lps = (evs, Inr r)"
    by (simp add: parse_response_def)
  from callbacks_and_return_success [OF this] fm nn show ?thesis by blast
qed

lemma callApi_success:
  assumes "callApi c penv p prompt_text context callApiOptions = (evs, Returned r)"
    and "error r = None"
  shows "\<exists>data is_cached evs'.
           transport_answer c penv p prompt_text context callApiOptions = Inr (data, is_cached)
         \<and> \<not> nullish data \<and> \<not> js_truthy (js_prop data ''error'')
         \<and> parse_response c p data is_cached = (evs', Inr r)
         \<and> evs = the_request c penv p prompt_text context callApiOptions # evs'"
proof -
  have key: "str_truthy (getApiKey penv p)"
    using assms(1) by (auto simp: callApi_def split: if_splits)
  show ?thesis
  proof (cases "transport_answer c penv p prompt_text context callApiOptions")
    case (Inl err)
    from callApi_fetch_throws [OF key Inl] assms show ?thesis
      by (simp add: error_result_def)
  next
    case (Inr answer)
    obtain data is_cached where answer: "answer = (data, is_cached)" by (cases answer)
    note fetched = Inr [unfolded answer]
    show ?thesis
    proof (cases "nullish data")
      case True
      from callApi_nullish_body [OF key fetched True] assms show ?thesis by simp
    next
      case False
      show ?thesis
      proof (cases "js_truthy (js_prop data ''error'')")
        case True
        from callApi_remote_error [OF key fetched False True] assms show ?thesis
          by (simp add: error_result_def)
      next
        case nonerr: False
        obtain evs' res where pr: "parse_response c p data is_cached = (evs', res)"
          by (cases "parse_response c p data is_cached")
        from callApi_parsed [OF key fetched False nonerr] assms pr
        have "evs = the_request c penv p prompt_text context callApiOptions # evs'"
          and "r = (case res of Inl e \<Rightarrow> error_result
                      (''API error: '' @ e @ '': '' @ JSON_stringify c data) | Inr r \<Rightarrow> r)"
          by simp_all
        with assms(2) have "res = Inr r"
          by (cases res) (simp_all add: error_result_def)
        with fetched False nonerr pr \<open>evs = _\<close> show ?thesis by simp
      qed
    qed
  qed
qed

lemma callApi_success_without_callback:
  assumes "callApi c penv p prompt_text context callApiOptions = (evs, Returned r)"
    and "error r = None"
    and "\<not> list_ex is_callback_call evs"
  shows "\<exists>data is_cached message.
           transport_answer c penv p prompt_text context callApiOptions = Inr (data, is_cached)
         \<and> first_message data = Inr message \<and> \<not> nullish message
         \<and> output r = Some (select_output message)"
proof -
  from callApi_success [OF assms(1,2)] obtain data is_cached evs' where
    t: "transport_answer c penv p prompt_text context callApiOptions = Inr (data, is_cached)"
    and pr: "parse_response c p data is_cached = (evs', Inr r)"
    and evs: "evs = the_request c penv p prompt_text context callApiOptions # evs'"
    by blast
  from parse_response_success [OF pr] obtain message where
    m: "first_message data = Inr message" "\<not> nullish message"
    and alt: "evs' = [] \<and> output r = Some (select_output message)
              \<or> (\<exists>name arg s. evs' = [CallbackCall name arg] \<and> output r = Some (JStr s))"
    by blast
  from alt assms(3) evs have "output r = Some (select_output message)"
    by auto
  with t m show ?thesis by blast
qed

subsection \<open>Output selection\<close>

lemma select_output_cases:
  "select_output message =
     (if js_truthy (js_prop message ''content'')
         \<and> (js_truthy (js_prop message ''function_call'')
            \<or> js_truthy (js_prop message ''tool_calls''))
      then message
      else if js_prop message ''content'' = JNull
      then (if js_truthy (js_prop message ''function_call'')
            then js_prop message ''function_call'' else js_prop message ''tool_calls'')
      else js_prop message ''content'')"
  by (auto simp: select_output_def js_or_def)

text \<open>
  C3 (as amended): when an invocation returns a result without an error and no function-tool
  callback was invoked, the transport answered with a body whose first choice has a message,
  and the output is chosen from that message in a fixed order, by JavaScript truthiness:
  the whole message when content is truthy and \<^verbatim>\<open>function_call\<close> or \<^verbatim>\<open>tool_calls\<close> is truthy;
  otherwise, when content is \<^verbatim>\<open>null\<close>, \<^verbatim>\<open>function_call\<close> if it is truthy and else
  \<^verbatim>\<open>tool_calls\<close>; otherwise the content as it is.
\<close>

theorem output_selection:
  assumes "callApi c penv p prompt_text context callApiOptions = (evs, Returned r)"
    and "error r = None"
    and "\<not> list_ex is_callback_call evs"
  shows "\<exists>data is_cached message.
           transport_answer c penv p prompt_text context callApiOptions = Inr (data, is_cached)
         \<and> first_message data = Inr message
         \<and> output r = Some
             (if js_truthy (js_prop message ''content'')
                 \<and> (js_truthy (js_prop message ''function_call'')
                    \<or> js_truthy (js_prop message ''tool_calls''))
              then message
              else if js_prop message ''content'' = JNull
              then (if js_truthy (js_prop message ''function_call'')
                    then js_prop message ''function_call'' else js_prop message ''tool_calls'')
              else js_prop message ''content'')"
proof -
  from callApi_success_without_callback [OF assms] obtain data is_cached message where
    t: "transport_answer c penv p prompt_text context callApiOptions = Inr (data, is_cached)"
      "first_message data = Inr message" and o: "output r = Some (select_output message)"
    by blast
  from o have "output r = Some
             (if js_truthy (js_prop message ''content'')
                 \<and> (js_truthy (js_prop message ''function_call'')
                    \<or> js_truthy (js_prop message ''tool_calls''))
              then message
              else if js_prop message ''content'' = JNull
              then (if js_truthy (js_prop message ''function_call'')
                    then js_prop message ''function_call'' else js_prop message ''tool_calls'')
              else js_prop message ''content'')"
    by (simp only: select_output_cases)
  with t show ?thesis by blast
qed

subsection \<open>Evaluation on the mocked transport\<close>

lemma transport_mock:
  "transport_answer (mock_collaborators answer) penv p prompt_text context callApiOptions = answer"
  by (simp add: transport_answer_def mock_collaborators_def)

lemma keyed_provider_key: "str_truthy (getApiKey Map.empty keyed_provider)"
  by (simp add: getApiKey_truthy_iff keyed_provider_def new_provider_def no_options_def
        config_with_key_def empty_config_def)

lemma lookup_provider_key: "str_truthy (getApiKey Map.empty lookup_provider)"
  by (simp add: getApiKey_truthy_iff lookup_provider_def new_provider_def no_options_def
        config_with_key_def empty_config_def)

lemma keyed_provider_callbacks: "functionToolCallbacks (config keyed_provider) = None"
  by (simp add: keyed_provider_def new_provider_def no_options_def
        config_with_key_def empty_config_def)

lemma lookup_provider_callbacks:
  "functionToolCallbacks (config lookup_provider) = Some [''lookup'' \<mapsto> (\<lambda>arg. Inr ''42'')]"
  by (simp add: lookup_provider_def new_provider_def no_options_def
        config_with_key_def empty_config_def)

lemma completion_body_props:
  "\<not> nullish (completion_body message)"
  "js_prop (completion_body message) ''error'' = JUndefined"
  "js_prop (completion_body message) ''choices'' = JArr [JObj [(''message'', message)]]"
  "first_message (completion_body message) = Inr message"
  by (simp_all add: completion_body_def first_message_def and_then_def js_get_def)

lemma callApi_mock_completion:
  assumes "str_truthy (getApiKey penv p)"
  shows "callApi (mock_collaborators (Inr (completion_body message, is_cached))) penv p
           prompt_text context callApiOptions =
         (the_request (mock_collaborators (Inr (completion_body message, is_cached))) penv p
            prompt_text context callApiOptions
            # fst (parse_response (mock_collaborators (Inr (completion_body message, is_cached)))
                    p (completion_body message) is_cached),
          Returned (case snd (parse_response
                       (mock_collaborators (Inr (completion_body message, is_cached)))
                       p (completion_body message) is_cached) of
                      Inl e \<Rightarrow> error_result (''API error: '' @ e @ '': ''
                        @ JSON_stringify
                            (mock_collaborators (Inr (completion_body message, is_cached)))
                            (completion_body message))
                    | Inr r \<Rightarrow> r))"
  by (rule callApi_parsed [OF assms transport_mock]) (simp_all add: completion_body_props)

text \<open>parse_response on a message without logprobs.\<close>

lemma parse_response_completion:
  assumes "\<not> nullish message"
  shows "parse_response c p (completion_body message) is_cached =
           callbacks_and_return c p (completion_body message) is_cached message
             (select_output message) JUndefined"
  using assms
  by (simp add: parse_response_def completion_body_def and_then_def js_get_def
        extract_logProbs_def)

lemma callbacks_and_return_no_table:
  assumes "functionToolCallbacks (config p) = None" and "\<not> nullish data"
  shows "\<exists>r. callbacks_and_return c p data is_cached message out lps = ([], Inr r)
             \<and> output r = Some out \<and> error r = None"
proof -
  from success_result_total [OF assms(2)] obtain r where
    r: "success_result c p data is_cached out lps = Inr r" by blast
  with assms(1) have "callbacks_and_return c p data is_cached message out lps = ([], Inr r)"
    by (simp add: callbacks_and_return_def)
  with success_result_fields [OF r] show ?thesis by blast
qed

lemma keyed_completion:
  assumes "\<not> nullish message"
  shows "\<exists>r. callApi (mock_collaborators (Inr (completion_body message, is_cached))) Map.empty
             keyed_provider prompt_text context callApiOptions =
           ([the_request (mock_collaborators (Inr (completion_body message, is_cached))) Map.empty
               keyed_provider prompt_text context callApiOptions], Returned r)
         \<and> output r = Some (select_output message) \<and> error r = None"
proof -
  let ?c = "mock_collaborators (Inr (completion_body message, is_cached))"
  from callbacks_and_return_no_table [OF keyed_provider_callbacks completion_body_props(1)]
  obtain r where "callbacks_and_return ?c keyed_provider (completion_body message) is_cached
      message (select_output message) JUndefined = ([], Inr r)"
    and "output r = Some (select_output message)" "error r = None"
    by blast
  then show ?thesis
    by (simp add: callApi_mock_completion [OF keyed_provider_key]
          parse_response_completion [OF assms])
qed

text \<open>The spec's example: content \<^verbatim>\<open>"hi"\<close> together with tool calls yields the whole
  message.\<close>

theorem output_selection_witness:
  "\<exists>evs r.
     callApi (mock_collaborators (Inr (completion_body
         (JObj [(''content'', JStr ''hi''),
                (''tool_calls'', JArr [JObj [(''name'', JStr ''f''), (''arguments'', JStr ''{}'')]])]),
         False)))
       Map.empty keyed_provider ''hello'' None None = (evs, Returned r)
     \<and> error r = None \<and> \<not> list_ex is_callback_call evs
     \<and> output r = Some (JObj [(''content'', JStr ''hi''),
                (''tool_calls'', JArr [JObj [(''name'', JStr ''f''), (''arguments'', JStr ''{}'')]])])"
proof -
  let ?m = "JObj [(''content'', JStr ''hi''),
                (''tool_calls'', JArr [JObj [(''name'', JStr ''f''), (''arguments'', JStr ''{}'')]])]"
  let ?c = "mock_collaborators (Inr (completion_body ?m, False))"
  from keyed_completion [of ?m False "''hello''" None None] obtain r where
    call: "callApi ?c Map.empty keyed_provider ''hello'' None None =
             ([the_request ?c Map.empty keyed_provider ''hello'' None None], Returned r)"
    and err: "error r = None"
    by auto
  have nocb: "\<not> list_ex is_callback_call [the_request ?c Map.empty keyed_provider ''hello'' None None]"
    by (simp add: the_request_def)
  from output_selection [OF call err nocb] obtain data is_cached message where
    tr: "transport_answer ?c Map.empty keyed_provider ''hello'' None None = Inr (data, is_cached)"
    "first_message data = Inr message"
    and out: "output r = Some
             (if js_truthy (js_prop message ''content'')
                 \<and> (js_truthy (js_prop message ''function_call'')
                    \<or> js_truthy (js_prop message ''tool_calls''))
              then message
              else if js_prop message ''content'' = JNull
              then (if js_truthy (js_prop message ''function_call'')
                    then js_prop message ''function_call'' else js_prop message ''tool_calls'')
              else js_prop message ''content'')"
    by blast
  then have "data = completion_body ?m" and "first_message data = Inr message"
    by (simp_all add: transport_mock)
  then have "message = ?m"
    by (simp add: completion_body_props)
  with out have "output r = Some ?m" by simp
  with call err nocb show ?thesis by blast
qed

text \<open>
  C3 as stated fails when "present" is read as present: a message whose content is the empty
  string and that carries a function call has both, yet the output is the empty string and
  not the whole message; and a message with content \<^verbatim>\<open>"hi"\<close> and an empty list of tool calls
  carries no call, yet the output is the whole message and not the content.
\<close>

theorem output_selection_counterexample:
  "returned_output (snd (callApi
     (mock_collaborators (Inr (completion_body
        (JObj [(''content'', JStr []),
               (''function_call'', JObj [(''name'', JStr ''f''), (''arguments'', JStr ''{}'')])]),
        False)))
     Map.empty keyed_provider ''hello'' None None)) = Some (JStr [])
   \<and> returned_output (snd (callApi
     (mock_collaborators (Inr (completion_body
        (JObj [(''content'', JStr []),
               (''function_call'', JObj [(''name'', JStr ''f''), (''arguments'', JStr ''{}'')])]),
        False)))
     Map.empty keyed_provider ''hello'' None None))
     \<noteq> Some (JObj [(''content'', JStr []),
               (''function_call'', JObj [(''name'', JStr ''f''), (''arguments'', JStr ''{}'')])])
   \<and> returned_output (snd (callApi
     (mock_collaborators (Inr (completion_body
        (JObj [(''content'', JStr ''hi''), (''tool_calls'', JArr [])]), False)))
     Map.empty keyed_provider ''hello'' None None))
     = Some (JObj [(''content'', JStr ''hi''), (''tool_calls'', JArr [])])
   \<and> returned_output (snd (callApi
     (mock_collaborators (Inr (completion_body
        (JObj [(''content'', JStr ''hi''), (''tool_calls'', JArr [])]), False)))
     Map.empty keyed_provider ''hello'' None None))
     \<noteq> Some (JStr ''hi'')"
proof -
  let ?m1 = "JObj [(''content'', JStr []),
               (''function_call'', JObj [(''name'', JStr ''f''), (''arguments'', JStr ''{}'')])]"
  let ?m2 = "JObj [(''content'', JStr ''hi''), (''tool_calls'', JArr [])]"
  from keyed_completion [of ?m1 False "''hello''" None None]
  obtain r1 where
    "snd (callApi (mock_collaborators (Inr (completion_body ?m1, False)))
               Map.empty keyed_provider ''hello'' None None) = Returned r1"
    and "output r1 = Some (select_output ?m1)"
    by auto
  then have a: "returned_output (snd (callApi (mock_collaborators (Inr (completion_body ?m1, False)))
               Map.empty keyed_provider ''hello'' None None)) = Some (JStr [])"
    by (simp add: select_output_cases returned_output_def)
  from keyed_completion [of ?m2 False "''hello''" None None]
  obtain r2 where
    "snd (callApi (mock_collaborators (Inr (completion_body ?m2, False)))
               Map.empty keyed_provider ''hello'' None None) = Returned r2"
    and "output r2 = Some (select_output ?m2)"
    by auto
  then have b: "returned_output (snd (callApi (mock_collaborators (Inr (completion_body ?m2, False)))
               Map.empty keyed_provider ''hello'' None None)) = Some ?m2"
    by (simp add: select_output_cases returned_output_def)
  show ?thesis
    unfolding a b by simp
qed

text \<open>
  C10 (as amended): when an invocation returns a result without an error and no function-tool
  callback was invoked, and the first choice's message has the empty string as content, the
  output is the empty string -- neither the whole message nor a call object, whether or not
  a \<^verbatim>\<open>function_call\<close> or \<^verbatim>\<open>tool_calls\<close> field is present -- because presence of content is
  decided by truthiness.
\<close>

theorem empty_content_output:
  assumes "callApi c penv p prompt_text context callApiOptions = (evs, Returned r)"
    and "error r = None"
    and "\<not> list_ex is_callback_call evs"
    and "transport_answer c penv p prompt_text context callApiOptions = Inr (data, is_cached)"
    and "first_message data = Inr message"
    and "js_prop message ''content'' = JStr []"
  shows "output r = Some (JStr [])"
proof -
  from callApi_success_without_callback [OF assms(1-3)] assms(4,5)
  have "output r = Some (select_output message)" by auto
  with assms(6) show ?thesis by (simp add: select_output_cases)
qed

text \<open>Empty content next to a function call, on a provider without callbacks.\<close>

theorem empty_content_output_witness:
  "\<exists>evs r.
     callApi (mock_collaborators (Inr (completion_body
         (JObj [(''content'', JStr []),
                (''function_call'', JObj [(''name'', JStr ''f''), (''arguments'', JStr ''{}'')])]),
         False)))
       Map.empty keyed_provider ''hello'' None None = (evs, Returned r)
     \<and> error r = None \<and> \<not> list_ex is_callback_call evs
     \<and> output r = Some (JStr [])"
proof -
  let ?m = "JObj [(''content'', JStr []),
                (''function_call'', JObj [(''name'', JStr ''f''), (''arguments'', JStr ''{}'')])]"
  let ?c = "mock_collaborators (Inr (completion_body ?m, False))"
  from keyed_completion [of ?m False "''hello''" None None] obtain r where
    call: "callApi ?c Map.empty keyed_provider ''hello'' None None =
             ([the_request ?c Map.empty keyed_provider ''hello'' None None], Returned r)"
    and err: "error r = None"
    by auto
  have nocb: "\<not> list_ex is_callback_call [the_request ?c Map.empty keyed_provider ''hello'' None None]"
    by (simp add: the_request_def)
  have tr: "transport_answer ?c Map.empty keyed_provider ''hello'' None None
              = Inr (completion_body ?m, False)"
    by (rule transport_mock)
  have "output r = Some (JStr [])"
    by (rule empty_content_output [OF call err nocb tr completion_body_props(4)]) simp
  with call err nocb show ?thesis by blast
qed

subsection \<open>Remote errors\<close>




subsection \<open>The shape of results\<close>





subsection \<open>Function-tool callbacks\<close>

lemma callbacks_and_return_function_call:
  assumes "js_truthy (js_prop message ''function_call'')"
    and "functionToolCallbacks (config p) = Some callbacks"
    and "callbacks (js_to_string c (js_prop (js_prop message ''function_call'') ''name''))
           = Some callback"
    and "callback (js_prop (js_prop message ''function_call'') ''arguments'') = Inr s"
  shows "callbacks_and_return c p data is_cached message out lps =
           ([CallbackCall (js_to_string c (js_prop (js_prop message ''function_call'') ''name''))
               (js_prop (js_prop message ''function_call'') ''arguments'')],
            success_result c p data is_cached (JStr s) lps)"
  using assms js_truthy_not_nullish [OF assms(1)]
  by (simp add: callbacks_and_return_def function_calls_def js_get_def)

lemma dispatch_callbacks_without_function_call:
  assumes "nullish (js_prop message ''function_call'')"
  shows "fst (dispatch_callbacks c callbacks message calls) = []
         \<and> snd (dispatch_callbacks c callbacks message calls) \<noteq> Inr (Some s)"
  using assms
  by (induction calls) (auto simp: js_get_def split: sum.splits option.splits)

text \<open>
  For a message with a (truthy) \<^verbatim>\<open>function_call\<close> whose name has a callback, the callback
  is invoked once with the call's raw arguments, its string becomes the output, and usage,
  cached flag, logprobs and cost are those of the original response.
\<close>

lemma function_call_callback_short_circuits:
  assumes key: "str_truthy (getApiKey penv p)"
    and fetched: "transport_answer c penv p prompt_text context callApiOptions
                    = Inr (data, is_cached)"
    and nonerr: "\<not> js_truthy (js_prop data ''error'')"
    and choice: "and_then (js_get data ''choices'') js_index0 = Inr choice"
    and message: "js_get choice ''message'' = Inr message"
    and lps: "extract_logProbs choice = Inr lps"
    and fc: "js_truthy (js_prop message ''function_call'')"
    and table: "functionToolCallbacks (config p) = Some callbacks"
    and entry: "callbacks (js_to_string c (js_prop (js_prop message ''function_call'') ''name''))
                  = Some callback"
    and result: "callback (js_prop (js_prop message ''function_call'') ''arguments'') = Inr s"
  shows "\<exists>r. callApi c penv p prompt_text context callApiOptions =
             ([the_request c penv p prompt_text context callApiOptions,
               CallbackCall (js_to_string c (js_prop (js_prop message ''function_call'') ''name''))
                 (js_prop (js_prop message ''function_call'') ''arguments'')],
              Returned r)
           \<and> output r = Some (JStr s) \<and> error r = None
           \<and> getTokenUsage data is_cached = Inr (the (tokenUsage r)) \<and> tokenUsage r \<noteq> None
           \<and> cached_r r = Some is_cached \<and> logProbs r = Some lps
           \<and> cost_r r = Some (case calculateCost c (modelName p) (config p)
                                  (js_get_opt (js_prop data ''usage'') ''prompt_tokens'')
                                  (js_get_opt (js_prop data ''usage'') ''completion_tokens'') of
                             None \<Rightarrow> JUndefined | Some x \<Rightarrow> JNum x)"
proof -
  from choice have nn: "\<not> nullish data"
    by (auto simp: and_then_def js_get_def split: if_splits)
  from fc have mnn: "\<not> nullish message"
    by (cases message) simp_all
  from success_result_total [OF nn] obtain r where
    r: "success_result c p data is_cached (JStr s) lps = Inr r" by blast
  have "parse_response c p data is_cached =
          callbacks_and_return c p data is_cached message (select_output message) lps"
    using choice message lps mnn by (simp add: parse_response_def and_then_def js_get_def)
  also note callbacks_and_return_function_call [OF fc table entry result]
  finally have "parse_response c p data is_cached =
      ([CallbackCall (js_to_string c (js_prop (js_prop message ''function_call'') ''name''))
          (js_prop (js_prop message ''function_call'') ''arguments'')], Inr r)"
    by (simp add: r)
  with callApi_parsed [OF key fetched nn nonerr]
  have "callApi c penv p prompt_text context callApiOptions =
             ([the_request c penv p prompt_text context callApiOptions,
               CallbackCall (js_to_string c (js_prop (js_prop message ''function_call'') ''name''))
                 (js_prop (js_prop message ''function_call'') ''arguments'')],
              Returned r)"
    by simp
  with success_result_fields [OF r] show ?thesis by blast
qed

text \<open>
  Without a \<^verbatim>\<open>function_call\<close> on the message no callback is ever invoked: line 310 reads
  the argument from \<^verbatim>\<open>message.function_call\<close>, not from the call at hand.
\<close>

lemma tool_calls_never_reach_a_callback:
  assumes "nullish (js_prop message ''function_call'')"
    and "callbacks_and_return c p data is_cached message out lps = (evs, Inr r)"
  shows "evs = [] \<and> output r = Some out"
proof -
  have none: "evs' = []" if "dispatch_callbacks c callbacks message calls = (evs', res)"
    for callbacks calls evs' res
    using dispatch_callbacks_without_function_call [OF assms(1), of c callbacks calls] that
    by simp
  have "fst (callbacks_and_return c p data is_cached message out lps) = []"
    by (auto simp: callbacks_and_return_def dest: none
          split: option.splits sum.splits prod.splits)
  with assms(2) have "evs = []" by simp
  with callbacks_and_return_success [OF assms(2)] show ?thesis by auto
qed

text \<open>
  A tool call in the shape of the OpenAI wire format keeps its name under \<^verbatim>\<open>function\<close>, where
  the loop does not look: line 307 reads \<^verbatim>\<open>functionCall.name\<close>, which is \<^verbatim>\<open>undefined\<close>, no
  callback is found under that key, and the output is the list of tool calls.
\<close>

lemma wire_format_tool_call_is_not_matched:
  "returned_output (snd (callApi
     (mock_collaborators (Inr (completion_body
        (JObj [(''content'', JNull),
               (''tool_calls'',
                  JArr [JObj [(''id'', JStr ''call_1''), (''type'', JStr ''function''),
                              (''function'', JObj [(''name'', JStr ''lookup''),
                                                   (''arguments'', JStr ''{}'')])]])]),
        False)))
     Map.empty lookup_provider ''hello'' None None))
   = Some (JArr [JObj [(''id'', JStr ''call_1''), (''type'', JStr ''function''),
                       (''function'', JObj [(''name'', JStr ''lookup''),
                                            (''arguments'', JStr ''{}'')])]])
   \<and> fst (callApi
     (mock_collaborators (Inr (completion_body
        (JObj [(''content'', JNull),
               (''tool_calls'',
                  JArr [JObj [(''id'', JStr ''call_1''), (''type'', JStr ''function''),
                              (''function'', JObj [(''name'', JStr ''lookup''),
                                                   (''arguments'', JStr ''{}'')])]])]),
        False)))
     Map.empty lookup_provider ''hello'' None None)
   = [the_request
     (mock_collaborators (Inr (completion_body
        (JObj [(''content'', JNull),
               (''tool_calls'',
                  JArr [JObj [(''id'', JStr ''call_1''), (''type'', JStr ''function''),
                              (''function'', JObj [(''name'', JStr ''lookup''),
                                                   (''arguments'', JStr ''{}'')])]])]),
        False)))
     Map.empty lookup_provider ''hello'' None None]"
proof -
  let ?calls = "JArr [JObj [(''id'', JStr ''call_1''), (''type'', JStr ''function''),
                              (''function'', JObj [(''name'', JStr ''lookup''),
                                                   (''arguments'', JStr ''{}'')])]]"
  let ?m = "JObj [(''content'', JNull), (''tool_calls'', ?calls)]"
  let ?c = "mock_collaborators (Inr (completion_body ?m, False))"
  from success_result_total [OF completion_body_props(1)] obtain r where
    r: "success_result ?c lookup_provider (completion_body ?m) False (select_output ?m) JUndefined
          = Inr r"
    by blast
  from success_result_fields [OF r] have out: "output r = Some ?calls"
    by (simp add: select_output_cases)
  have "parse_response ?c lookup_provider (completion_body ?m) False = ([], Inr r)"
    using r
    by (simp add: parse_response_completion callbacks_and_return_def function_calls_def
          lookup_provider_callbacks js_get_def)
  then have "callApi ?c Map.empty lookup_provider ''hello'' None None =
               ([the_request ?c Map.empty lookup_provider ''hello'' None None], Returned r)"
    by (simp add: callApi_mock_completion [OF lookup_provider_key])
  with out show ?thesis
    by (simp add: returned_output_def)
qed

text \<open>
  C1 on the spec's own example, a callback registered for \<^verbatim>\<open>lookup\<close> and a message whose
  \<^verbatim>\<open>tool_calls\<close> carry a call named \<^verbatim>\<open>lookup\<close>: reading
  \<^verbatim>\<open>message.function_call.arguments\<close> throws, the callback is not invoked (the fetch is the
  only call made), and the invocation returns an error result instead of the output
  \<^verbatim>\<open>"42"\<close>.
\<close>

theorem tool_call_callback_error:
  "callApi
     (mock_collaborators (Inr (completion_body
        (JObj [(''content'', JNull),
               (''tool_calls'',
                  JArr [JObj [(''name'', JStr ''lookup''), (''arguments'', JStr ''{}'')]])]),
        False)))
     Map.empty lookup_provider ''hello'' None None =
   ([the_request
       (mock_collaborators (Inr (completion_body
          (JObj [(''content'', JNull),
                 (''tool_calls'',
                    JArr [JObj [(''name'', JStr ''lookup''), (''arguments'', JStr ''{}'')]])]),
          False)))
       Map.empty lookup_provider ''hello'' None None],
    Returned (error_result
      ''API error: TypeError: Cannot read properties of undefined (reading 'arguments'): <body>''))"
proof -
  let ?m = "JObj [(''content'', JNull),
               (''tool_calls'',
                  JArr [JObj [(''name'', JStr ''lookup''), (''arguments'', JStr ''{}'')]])]"
  let ?c = "mock_collaborators (Inr (completion_body ?m, False))"
  have "parse_response ?c lookup_provider (completion_body ?m) False =
          ([], Inl ''TypeError: Cannot read properties of undefined (reading 'arguments')'')"
    by (simp add: parse_response_completion callbacks_and_return_def function_calls_def
          lookup_provider_callbacks js_get_def type_error_read_def)
  then show ?thesis
    by (simp add: callApi_mock_completion [OF lookup_provider_key])
       (simp add: mock_collaborators_def)
qed

text \<open>
  C10 as stated fails when a callback is registered for the carried function call: the
  output is what the callback resolved to, not the empty string.
\<close>

theorem empty_content_output_counterexample:
  "returned_output (snd (callApi
     (mock_collaborators (Inr (completion_body
        (JObj [(''content'', JStr []),
               (''function_call'',
                  JObj [(''name'', JStr ''lookup''), (''arguments'', JStr ''{}'')])]),
        False)))
     Map.empty lookup_provider ''hello'' None None)) = Some (JStr ''42'')
   \<and> returned_error (snd (callApi
     (mock_collaborators (Inr (completion_body
        (JObj [(''content'', JStr []),
               (''function_call'',
                  JObj [(''name'', JStr ''lookup''), (''arguments'', JStr ''{}'')])]),
        False)))
     Map.empty lookup_provider ''hello'' None None)) = None
   \<and> returned_output (snd (callApi
     (mock_collaborators (Inr (completion_body
        (JObj [(''content'', JStr []),
               (''function_call'',
                  JObj [(''name'', JStr ''lookup''), (''arguments'', JStr ''{}'')])]),
        False)))
     Map.empty lookup_provider ''hello'' None None)) \<noteq> Some (JStr [])"
proof -
  let ?m = "JObj [(''content'', JStr []),
               (''function_call'',
                  JObj [(''name'', JStr ''lookup''), (''arguments'', JStr ''{}'')])]"
  let ?c = "mock_collaborators (Inr (completion_body ?m, False))"
  have "\<exists>r. callApi ?c Map.empty lookup_provider ''hello'' None None =
             ([the_request ?c Map.empty lookup_provider ''hello'' None None,
               CallbackCall (js_to_string ?c (js_prop (js_prop ?m ''function_call'') ''name''))
                 (js_prop (js_prop ?m ''function_call'') ''arguments'')],
              Returned r)
           \<and> output r = Some (JStr ''42'') \<and> error r = None
           \<and> getTokenUsage (completion_body ?m) False = Inr (the (tokenUsage r))
           \<and> tokenUsage r \<noteq> None
           \<and> cached_r r = Some False \<and> logProbs r = Some JUndefined
           \<and> cost_r r = Some (case calculateCost ?c (modelName lookup_provider)
                                  (config lookup_provider)
                                  (js_get_opt (js_prop (completion_body ?m) ''usage'')
                                     ''prompt_tokens'')
                                  (js_get_opt (js_prop (completion_body ?m) ''usage'')
                                     ''completion_tokens'') of
                             None \<Rightarrow> JUndefined | Some x \<Rightarrow> JNum x)"
  proof (rule function_call_callback_short_circuits
          [OF lookup_provider_key transport_mock _ _ _ _ _ lookup_provider_callbacks])
    show "\<not> js_truthy (js_prop (completion_body ?m) ''error'')"
      by (simp add: completion_body_props)
    show "and_then (js_get (completion_body ?m) ''choices'') js_index0
            = Inr (JObj [(''message'', ?m)])"
      by (simp add: completion_body_def and_then_def js_get_def)
    show "js_get (JObj [(''message'', ?m)]) ''message'' = Inr ?m"
      by (simp add: js_get_def)
    show "extract_logProbs (JObj [(''message'', ?m)]) = Inr JUndefined"
      by (simp add: extract_logProbs_def)
    show "js_truthy (js_prop ?m ''function_call'')"
      by simp
    show "[''lookup'' \<mapsto> (\<lambda>arg. Inr ''42'')]
            (js_to_string ?c (js_prop (js_prop ?m ''function_call'') ''name''))
          = Some (\<lambda>arg. Inr ''42'')"
      by simp
    show "(\<lambda>arg. Inr ''42'') (js_prop (js_prop ?m ''function_call'') ''arguments'')
            = Inr ''42''"
      by simp
  qed
  then obtain r where
    "snd (callApi ?c Map.empty lookup_provider ''hello'' None None) = Returned r"
    "output r = Some (JStr ''42'')" "error r = None"
    by auto
  then show ?thesis
    by (simp add: returned_output_def returned_error_def)
qed

section \<open>Cost\<close>

text \<open>The double-precision steps of the spec's example, \<^verbatim>\<open>0.0008 / 1000\<close>,
  \<^verbatim>\<open>0.0024 / 1000\<close>, their products with 1000 tokens and the sum of the products.\<close>

lemma input_rate:
  "ddiv (fl (8 / 10000)) 1000 = 7555786372591433 / 9444732965739290427392"
  by code_simp

lemma output_rate:
  "ddiv (fl (24 / 10000)) 1000 = 2833419889721787 / 1180591620717411303424"
  by code_simp

lemma input_product:
  "dmul (7555786372591433 / 9444732965739290427392) 1000
     = 7378697629483821 / 9223372036854775808"
  by code_simp

lemma output_product:
  "dmul (2833419889721787 / 1180591620717411303424) 1000
     = 5534023222112865 / 2305843009213693952"
  by code_simp

lemma cost_sum:
  "dadd (7378697629483821 / 9223372036854775808) (5534023222112865 / 2305843009213693952)
     = 1844674407370955 / 576460752303423488"
  by code_simp

lemma double_32_per_10000: "fl (32 / 10000) = 7378697629483821 / 2305843009213693952"
  by code_simp

lemma dbrx_entry:
  "find (\<lambda>m. id_m m = ''databricks-dbrx-instruct'') DATABRICKS_CHAT_MODELS =
     Some \<lparr>id_m = ''databricks-dbrx-instruct'',
           cost_m = Some \<lparr>input_cost = 7555786372591433 / 9444732965739290427392,
                          output_cost = 2833419889721787 / 1180591620717411303424\<rparr>\<rparr>"
  unfolding DATABRICKS_CHAT_MODELS_def input_rate output_rate by simp

lemma dbrx_cost:
  assumes "cost cfg = None"
  shows "calculateCost c ''databricks-dbrx-instruct'' cfg (JNum 1000) (JNum 1000)
           = Some (1844674407370955 / 576460752303423488)"
proof -
  have "calculateCost c ''databricks-dbrx-instruct'' cfg (JNum 1000) (JNum 1000)
          = or_undefined (dadd (dmul (7555786372591433 / 9444732965739290427392) 1000)
                               (dmul (2833419889721787 / 1180591620717411303424) 1000))"
    using assms by (simp add: calculateCost_def calculateCost_in_def dbrx_entry)
  also have "\<dots> = Some (1844674407370955 / 576460752303423488)"
    unfolding input_product output_product cost_sum by (simp add: or_undefined_def)
  finally show ?thesis .
qed

text \<open>
  C5 (as amended): the cost is undefined when the model id is not in the catalog, when the
  catalog entry has no cost, or when the prompt or the completion token count is missing or
  zero. Otherwise, for numeric counts, the cost is the double-precision sum of the products
  (cost override, else catalog input rate) \<times> prompt tokens and (cost override, else catalog
  output rate) \<times> completion tokens; a single override replaces both rates; a sum of exactly
  zero is coalesced to undefined. For \<^verbatim>\<open>databricks-dbrx-instruct\<close> with 1000 prompt and 1000
  completion tokens and no override the cost is the double
  \<^verbatim>\<open>0.0031999999999999997\<close>, that is \<open>1844674407370955 / 2\<^sup>5\<^sup>9\<close>.
\<close>

theorem cost_calculation:
  "(find (\<lambda>m. id_m m = name) catalog = None \<longrightarrow>
      calculateCost_in catalog c name cfg promptTokens completionTokens = None)
   \<and> (\<forall>model. find (\<lambda>m. id_m m = name) catalog = Some model \<longrightarrow> cost_m model = None \<longrightarrow>
        calculateCost_in catalog c name cfg promptTokens completionTokens = None)
   \<and> (promptTokens \<in> {JUndefined, JNum 0} \<or> completionTokens \<in> {JUndefined, JNum 0} \<longrightarrow>
        calculateCost_in catalog c name cfg promptTokens completionTokens = None)
   \<and> (\<forall>model rates a b.
        find (\<lambda>m. id_m m = name) catalog = Some model \<longrightarrow> cost_m model = Some rates \<longrightarrow>
        a \<noteq> 0 \<longrightarrow> b \<noteq> 0 \<longrightarrow>
        calculateCost_in catalog c name cfg (JNum a) (JNum b) =
          (let inputCost = (case cost cfg of Some x \<Rightarrow> x | None \<Rightarrow> input_cost rates);
               outputCost = (case cost cfg of Some x \<Rightarrow> x | None \<Rightarrow> output_cost rates);
               sum = dadd (dmul inputCost a) (dmul outputCost b)
           in if sum = 0 then None else Some sum))
   \<and> (\<forall>model rates a b x.
        find (\<lambda>m. id_m m = name) catalog = Some model \<longrightarrow> cost_m model = Some rates \<longrightarrow>
        a \<noteq> 0 \<longrightarrow> b \<noteq> 0 \<longrightarrow> cost cfg = Some x \<longrightarrow>
        calculateCost_in catalog c name cfg (JNum a) (JNum b) =
          (if dadd (dmul x a) (dmul x b) = 0 then None else Some (dadd (dmul x a) (dmul x b))))
   \<and> (cost cfg = None \<longrightarrow>
        calculateCost c ''databricks-dbrx-instruct'' cfg (JNum 1000) (JNum 1000)
          = Some (1844674407370955 / 576460752303423488))"
proof (intro conjI allI impI)
  assume "cost cfg = None"
  then show "calculateCost c ''databricks-dbrx-instruct'' cfg (JNum 1000) (JNum 1000)
          = Some (1844674407370955 / 576460752303423488)"
    by (rule dbrx_cost)
qed (auto simp: calculateCost_in_def or_undefined_def Let_def)

text \<open>An unknown model, a catalog entry without cost, zero prompt tokens, an override of
  one half on 3 and 5 tokens, and the spec's example.\<close>

theorem cost_calculation_witness:
  "calculateCost_in DATABRICKS_CHAT_MODELS (mock_collaborators (Inl [])) ''unknown-model''
      empty_config (JNum 1000) (JNum 1000) = None
   \<and> calculateCost_in [\<lparr>id_m = ''free-model'', cost_m = None\<rparr>] (mock_collaborators (Inl []))
       ''free-model'' empty_config (JNum 1000) (JNum 1000) = None
   \<and> calculateCost_in DATABRICKS_CHAT_MODELS (mock_collaborators (Inl []))
       ''databricks-dbrx-instruct'' empty_config (JNum 0) (JNum 1000) = None
   \<and> calculateCost_in DATABRICKS_CHAT_MODELS (mock_collaborators (Inl []))
       ''databricks-dbrx-instruct'' (empty_config\<lparr>cost := Some (1 / 2)\<rparr>) (JNum 3) (JNum 5) = Some 4
   \<and> calculateCost (mock_collaborators (Inl [])) ''databricks-dbrx-instruct'' empty_config
       (JNum 1000) (JNum 1000) = Some (1844674407370955 / 576460752303423488)"
proof -
  let ?c = "mock_collaborators (Inl [])"
  have unknown: "find (\<lambda>m. id_m m = ''unknown-model'') DATABRICKS_CHAT_MODELS = None"
    by (simp add: DATABRICKS_CHAT_MODELS_def)
  have free: "find (\<lambda>m. id_m m = ''free-model'') [\<lparr>id_m = ''free-model'', cost_m = None\<rparr>]
                = Some \<lparr>id_m = ''free-model'', cost_m = None\<rparr>"
    by simp
  have half: "dadd (dmul (1 / 2) 3) (dmul (1 / 2) 5) = 4"
    by code_simp
  have none: "cost empty_config = None" and some: "cost (empty_config\<lparr>cost := Some (1 / 2)\<rparr>) = Some (1 / 2)"
    by (simp_all add: empty_config_def)
  from cost_calculation [of "''unknown-model''" DATABRICKS_CHAT_MODELS ?c empty_config
         "JNum 1000" "JNum 1000"] unknown
  have 1: "calculateCost_in DATABRICKS_CHAT_MODELS ?c ''unknown-model''
      empty_config (JNum 1000) (JNum 1000) = None"
    by blast
  from cost_calculation [of "''free-model''" "[\<lparr>id_m = ''free-model'', cost_m = None\<rparr>]" ?c
         empty_config "JNum 1000" "JNum 1000"] free
  have 2: "calculateCost_in [\<lparr>id_m = ''free-model'', cost_m = None\<rparr>] ?c
       ''free-model'' empty_config (JNum 1000) (JNum 1000) = None"
    by simp
  from cost_calculation [of "''databricks-dbrx-instruct''" DATABRICKS_CHAT_MODELS ?c
         empty_config "JNum 0" "JNum 1000"]
  have 3: "calculateCost_in DATABRICKS_CHAT_MODELS ?c
       ''databricks-dbrx-instruct'' empty_config (JNum 0) (JNum 1000) = None"
    by blast
  from cost_calculation [of "''databricks-dbrx-instruct''" DATABRICKS_CHAT_MODELS ?c
         "empty_config\<lparr>cost := Some (1 / 2)\<rparr>" "JNum 3" "JNum 5"] dbrx_entry some
  have 4: "calculateCost_in DATABRICKS_CHAT_MODELS ?c
       ''databricks-dbrx-instruct'' (empty_config\<lparr>cost := Some (1 / 2)\<rparr>) (JNum 3) (JNum 5)
        = Some 4"
    by (simp add: half)
  from cost_calculation [of "''databricks-dbrx-instruct''" DATABRICKS_CHAT_MODELS ?c
         empty_config "JNum 1000" "JNum 1000"] none
  have 5: "calculateCost ?c ''databricks-dbrx-instruct'' empty_config
       (JNum 1000) (JNum 1000) = Some (1844674407370955 / 576460752303423488)"
    by blast
  from 1 2 3 4 5 show ?thesis by blast
qed

text \<open>
  C5 as stated fails in its example: the computed cost is neither the double \<^verbatim>\<open>0.0032\<close> nor
  the rational \<open>32 / 10000\<close>; it is the double one unit in the last place below
  \<^verbatim>\<open>0.0032\<close>, because the double sum of \<^verbatim>\<open>0.0008\<close> and \<^verbatim>\<open>0.0024\<close> rounds down.
\<close>

theorem cost_calculation_counterexample:
  "calculateCost (mock_collaborators (Inl [])) ''databricks-dbrx-instruct'' empty_config
       (JNum 1000) (JNum 1000) \<noteq> Some (fl (32 / 10000))
   \<and> calculateCost (mock_collaborators (Inl [])) ''databricks-dbrx-instruct'' empty_config
       (JNum 1000) (JNum 1000) \<noteq> Some (32 / 10000)
   \<and> calculateCost (mock_collaborators (Inl [])) ''databricks-dbrx-instruct'' empty_config
       (JNum 1000) (JNum 1000) = Some (fl (32 / 10000) - 1 / 2 ^ 61)"
proof -
  have "cost empty_config = None" by (simp add: empty_config_def)
  from dbrx_cost [OF this] show ?thesis
    unfolding double_32_per_10000 by simp
qed

end
